theory Spec2Isabelle
  imports Main "HOL-Library.Word"
begin

section \<open>Go values used by the loader and the browser\<close>

text \<open>
  A Go \<^verbatim>\<open>error\<close> is either an opaque error with a message, or an error that wraps
  another one behind a prefix (\<^verbatim>\<open>fmt.Errorf("error running script: %w", err)\<close>).
  \<open>Error\<close> is the \<^verbatim>\<open>Error()\<close> method. Go strings and byte slices are byte sequences,
  as \<open>string\<close> is here.
\<close>

datatype error = New string | Wrap string error

fun Error :: "error \<Rightarrow> string" where
  "Error (New m) = m"
| "Error (Wrap p e) = p @ Error e"

text \<open>A panic ends the process: one raised with an error value, or the run-time panic
  of closing a channel that is closed already.\<close>

datatype fault = PanicError error | CloseOfClosedChannel

text \<open>
  A channel: its capacity, the values buffered in it (oldest first) and whether it has been
  closed. A send proceeds when the buffer has room, a receive when it holds a value.
\<close>

record 'a chan =
  cap :: nat
  buf :: "'a list"
  closed :: bool

definition make_chan :: "nat \<Rightarrow> 'a chan" where
  "make_chan n = \<lparr>cap = n, buf = [], closed = False\<rparr>"

definition send :: "'a \<Rightarrow> 'a chan \<Rightarrow> 'a chan option" where
  "send x c = (if length (buf c) < cap c then Some (c\<lparr>buf := buf c @ [x]\<rparr>) else None)"

definition recv :: "'a chan \<Rightarrow> ('a \<times> 'a chan) option" where
  "recv c = (case buf c of [] \<Rightarrow> None | x # xs \<Rightarrow> Some (x, c\<lparr>buf := xs\<rparr>))"

definition close_chan :: "'a chan \<Rightarrow> fault + 'a chan" where
  "close_chan c = (if closed c then Inl CloseOfClosedChannel else Inr (c\<lparr>closed := True\<rparr>))"

subsection \<open>Decimal printing of an int (the verb \<^verbatim>\<open>%d\<close>)\<close>

definition digit :: "nat \<Rightarrow> char" where
  "digit d = ''0123456789'' ! (d mod 10)"

fun digits :: "nat \<Rightarrow> string" where
  "digits n = (if n < 10 then [digit n] else digits (n div 10) @ [digit (n mod 10)])"

declare digits.simps [simp del]

definition itoa :: "int \<Rightarrow> string" where
  "itoa i = (if i < 0 then CHR ''-'' # digits (nat (- i)) else digits (nat i))"

subsection \<open>\<^verbatim>\<open>base64.StdEncoding.EncodeToString\<close>\<close>

definition encodeStd :: string where
  "encodeStd = ''ABCDEFGHIJKLMNOPQRSTUVWXYZabcdefghijklmnopqrstuvwxyz0123456789+/''"

definition b64 :: "nat \<Rightarrow> char" where
  "b64 n = encodeStd ! (n mod 64)"

fun EncodeToString :: "string \<Rightarrow> string" where
  "EncodeToString [] = []"
| "EncodeToString [a] =
     (let x = (of_char a :: nat)
      in [b64 (x div 4), b64 ((x mod 4) * 16), CHR ''='', CHR ''=''])"
| "EncodeToString [a, b] =
     (let x = (of_char a :: nat); y = (of_char b :: nat)
      in [b64 (x div 4), b64 ((x mod 4) * 16 + y div 16), b64 ((y mod 16) * 4), CHR ''=''])"
| "EncodeToString (a # b # c # rest) =
     (let x = (of_char a :: nat); y = (of_char b :: nat); z = (of_char c :: nat)
      in [b64 (x div 4), b64 ((x mod 4) * 16 + y div 16),
          b64 ((y mod 16) * 4 + z div 64), b64 (z mod 64)] @ EncodeToString rest)"

subsection \<open>\<^verbatim>\<open>context.WithTimeoutCause\<close> and \<^verbatim>\<open>time.Duration\<close>\<close>

text \<open>
  A \<^verbatim>\<open>time.Duration\<close> is an int64 count of nanoseconds; its arithmetic wraps. A context
  made by \<^verbatim>\<open>context.WithTimeoutCause(context.Background(), d, cause)\<close> is kept as the
  duration until its deadline and the cause reported once the deadline has passed.
\<close>

type_synonym Duration = "64 word"

definition Millisecond :: Duration where
  "Millisecond = 1000000"

record "context" =
  deadline :: Duration
  cause :: error

definition WithTimeoutCause :: "Duration \<Rightarrow> error \<Rightarrow> context" where
  "WithTimeoutCause d e = \<lparr>deadline = d, cause = e\<rparr>"

section \<open>Package fanout and the browser's data\<close>

text \<open>
  The events the browser hands to the hub. The struct \<^verbatim>\<open>fanout.WebsocketEvent\<close> is read
  off the literals in \<^verbatim>\<open>updateWatcher\<close>: a type, a message and, for images, a format.
\<close>

datatype EventType = EventTypeImage | EventTypeErr | EventTypeSchema

record WebsocketEvent =
  Type :: EventType
  Message :: string
  ImageType :: string

text \<open>
  The struct \<^verbatim>\<open>Browser\<close>. Its \<^verbatim>\<open>updateChan\<close> is the loader's \<^verbatim>\<open>updatesChan\<close> and
  \<^verbatim>\<open>loader\<close> points to the loader: both live in the state of the whole server below.
  \<open>fo\<close> is the hub.
\<close>

record 'fo Browser =
  addr :: string
  path :: string
  title :: string
  watch :: bool
  fo :: 'fo
  serveGif :: bool

section \<open>Package loader\<close>

text \<open>
  A configuration, \<^verbatim>\<open>map[string]string\<close>, as the list of its entries: it stands for
  the map \<open>map_of\<close> reads from it.
\<close>

type_synonym config = "(string \<times> string) list"

record Update =
  Image :: string
  ImageType :: string
  Schema :: string
  Err :: "error option"

text \<open>\<^verbatim>\<open>Update{}\<close>, the zero value.\<close>

definition Update0 :: Update where
  "Update0 = \<lparr>Image = [], ImageType = [], Schema = [], Err = None\<rparr>"

text \<open>
  The files of the operating system, by path: what \<^verbatim>\<open>os.WriteFile\<close> writes and what
  \<^verbatim>\<open>loadScript\<close> reads through the loader's \<^verbatim>\<open>fs.FS\<close>.
\<close>

type_synonym disk = "string \<Rightarrow> string option"

text \<open>
  The struct \<^verbatim>\<open>Loader\<close>, with the channels it points to. \<^verbatim>\<open>timeout\<close> and
  \<^verbatim>\<open>maxDuration\<close> are Go ints (64 bits on the platforms the server is built for).
\<close>

record ('fs, 'app) Loader =
  fs :: 'fs
  fileChanges :: "bool chan"
  watch :: bool
  applet :: 'app
  configChanges :: "config chan"
  requestedChanges :: "bool chan"
  updatesChan :: "Update chan"
  resultsChan :: "Update chan"
  maxDuration :: "64 word"
  initialLoad :: "bool chan"
  timeout :: "64 word"
  renderGif :: bool
  configOutFile :: string

text \<open>
  What the loader calls and this development does not define: the script loader, the
  applet run time, the render pipeline, \<^verbatim>\<open>json.Marshal\<close> and the failure of
  \<^verbatim>\<open>os.WriteFile\<close>. They are parameters of every definition below.
  \<^item> \<open>loadScript\<close>: \<^verbatim>\<open>loadScript(appID, fs)\<close>, reading the files as they are now;
  \<^item> \<open>emptyApplet\<close>: \<^verbatim>\<open>runtime.Applet{}\<close>; \<open>SchemaJSON\<close>: the applet's field;
  \<^item> \<open>RunWithConfig\<close>: \<^verbatim>\<open>applet.RunWithConfig(ctx, config)\<close>;
  \<^item> \<open>ScreensFromRoots\<close>, \<open>ShowFullAnimation\<close>, \<open>EncodeGIF\<close>, \<open>EncodeWebP\<close>: package encode;
  \<^item> \<open>Marshal\<close>: \<^verbatim>\<open>json.Marshal(config)\<close>;
  \<^item> \<open>WriteFileErr\<close>: the error, if any, with which writing to a path fails.
\<close>

record ('fs, 'app, 'roots, 'screens) env =
  loadScript :: "string \<Rightarrow> 'fs \<Rightarrow> disk \<Rightarrow> error + 'app"
  emptyApplet :: 'app
  SchemaJSON :: "'app \<Rightarrow> string"
  RunWithConfig :: "'app \<Rightarrow> context \<Rightarrow> config \<Rightarrow> error + 'roots"
  ScreensFromRoots :: "'roots \<Rightarrow> 'screens"
  ShowFullAnimation :: "'screens \<Rightarrow> bool"
  EncodeGIF :: "'screens \<Rightarrow> 64 word \<Rightarrow> error + string"
  EncodeWebP :: "'screens \<Rightarrow> 64 word \<Rightarrow> error + string"
  Marshal :: "config \<Rightarrow> error + string"
  WriteFileErr :: "string \<Rightarrow> error option"

text \<open>\<^verbatim>\<open>os.WriteFile(name, data, 0644)\<close>: the file holds exactly \<open>data\<close> afterwards.\<close>

definition WriteFile ::
  "('fs, 'app, 'roots, 'screens) env \<Rightarrow> string \<Rightarrow> string \<Rightarrow> disk \<Rightarrow> error + disk" where
  "WriteFile env name data d =
     (case WriteFileErr env name of
        Some err \<Rightarrow> Inl err
      | None \<Rightarrow> Inr (d(name \<mapsto> data)))"

subsection \<open>\<^verbatim>\<open>markInitialLoadComplete\<close>\<close>

text \<open>
  \<^verbatim>\<open>select { case <-l.initialLoad: default: close(l.initialLoad) }\<close>. Nothing is ever sent
  on \<^verbatim>\<open>initialLoad\<close>, so the receive can proceed exactly when the channel is closed.
\<close>

definition markInitialLoadComplete ::
  "('fs, 'app) Loader \<Rightarrow> fault + ('fs, 'app) Loader" where
  "markInitialLoadComplete l =
     (if closed (initialLoad l) then Inr l
      else (case close_chan (initialLoad l) of
              Inl f \<Rightarrow> Inl f
            | Inr c \<Rightarrow> Inr (l\<lparr>initialLoad := c\<rparr>)))"

text \<open>The release operation invoked \<open>n\<close> times in a row.\<close>

primrec markInitialLoadComplete_times ::
  "nat \<Rightarrow> ('fs, 'app) Loader \<Rightarrow> fault + ('fs, 'app) Loader" where
  "markInitialLoadComplete_times 0 l = Inr l"
| "markInitialLoadComplete_times (Suc n) l =
     (case markInitialLoadComplete l of
        Inl f \<Rightarrow> Inl f
      | Inr l' \<Rightarrow> markInitialLoadComplete_times n l')"

subsection \<open>\<^verbatim>\<open>loadApplet\<close>\<close>

text \<open>The context of one execution (lines 198 to 202 of loader.go).\<close>

definition runContext :: "('fs, 'app) Loader \<Rightarrow> context" where
  "runContext l =
     WithTimeoutCause (timeout l * Millisecond)
       (New (''timeout after '' @ itoa (sint (timeout l)) @ ''ms''))"

text \<open>Lines 198 to 225: run the applet under the deadline, encode, base64.\<close>

definition renderApplet ::
  "('fs, 'app, 'roots, 'screens) env \<Rightarrow> ('fs, 'app) Loader \<Rightarrow> config
     \<Rightarrow> error + string" where
  "renderApplet env l config =
     (case RunWithConfig env (applet l) (runContext l) config of
        Inl err \<Rightarrow> Inl (Wrap ''error running script: '' err)
      | Inr roots \<Rightarrow>
          (let screens = ScreensFromRoots env roots;
               maxD = (if ShowFullAnimation env screens then 0 else maxDuration l);
               r = (if renderGif l then EncodeGIF env screens maxD
                    else EncodeWebP env screens maxD)
           in case r of
                Inl err \<Rightarrow> Inl (Wrap ''error rendering: '' err)
              | Inr img \<Rightarrow> Inr (EncodeToString img)))"

text \<open>
  The same lines up to the encoder's result: the bytes \<^verbatim>\<open>img\<close> that line 225 encodes in
  base64, or the error returned before.
\<close>

definition renderBytes ::
  "('fs, 'app, 'roots, 'screens) env \<Rightarrow> ('fs, 'app) Loader \<Rightarrow> config
     \<Rightarrow> error + string" where
  "renderBytes env l config =
     (case RunWithConfig env (applet l) (runContext l) config of
        Inl err \<Rightarrow> Inl (Wrap ''error running script: '' err)
      | Inr roots \<Rightarrow>
          (let screens = ScreensFromRoots env roots;
               maxD = (if ShowFullAnimation env screens then 0 else maxDuration l);
               r = (if renderGif l then EncodeGIF env screens maxD
                    else EncodeWebP env screens maxD)
           in case r of
                Inl err \<Rightarrow> Inl (Wrap ''error rendering: '' err)
              | Inr img \<Rightarrow> Inr img))"

text \<open>
  \<^verbatim>\<open>loadApplet\<close> returns the loader as it has left it and either the error or the image.
  A panic of the release operation would be the only way out with a fault.
\<close>

definition loadApplet ::
  "('fs, 'app, 'roots, 'screens) env \<Rightarrow> ('fs, 'app) Loader \<Rightarrow> disk \<Rightarrow> config
     \<Rightarrow> fault + (('fs, 'app) Loader \<times> (error + string))" where
  "loadApplet env l d config =
     (if watch l then
        (let r = loadScript env ''app-id'' (fs l) d
         in case markInitialLoadComplete l of
              Inl f \<Rightarrow> Inl f
            | Inr l1 \<Rightarrow>
                (case r of
                   Inl err \<Rightarrow> Inr (l1, Inl err)
                 | Inr app \<Rightarrow>
                     (let l2 = l1\<lparr>applet := app\<rparr>
                      in Inr (l2, renderApplet env l2 config))))
      else Inr (l, renderApplet env l config))"

subsection \<open>\<^verbatim>\<open>NewLoader\<close>\<close>

text \<open>
  The result is a panic, or the error of the first load, or the loader. The run time's
  cache, which \<^verbatim>\<open>NewLoader\<close> also sets up, is left out.
\<close>

definition NewLoader ::
  "('fs, 'app, 'roots, 'screens) env \<Rightarrow> disk \<Rightarrow> 'fs \<Rightarrow> bool \<Rightarrow> bool chan
     \<Rightarrow> Update chan \<Rightarrow> 64 word \<Rightarrow> 64 word \<Rightarrow> bool \<Rightarrow> string
     \<Rightarrow> fault + error + ('fs, 'app) Loader" where
  "NewLoader env d fs0 watch0 fileChanges0 updatesChan0 maxDuration0 timeout0 renderGif0
       configOutFile0 =
     (let l = \<lparr>fs = fs0, fileChanges = fileChanges0, watch = watch0,
                applet = emptyApplet env, configChanges = make_chan 100,
                requestedChanges = make_chan 100, updatesChan = updatesChan0,
                resultsChan = make_chan 100, maxDuration = maxDuration0,
                initialLoad = make_chan 0, timeout = timeout0, renderGif = renderGif0,
                configOutFile = configOutFile0\<rparr>
      in if \<not> watch l then
           (let r = loadScript env ''app-id'' (fs l) d
            in case markInitialLoadComplete l of
                 Inl f \<Rightarrow> Inl f
               | Inr l1 \<Rightarrow>
                   (case r of
                      Inl err \<Rightarrow> Inr (Inl err)
                    | Inr app \<Rightarrow> Inr (Inr (l1\<lparr>applet := app\<rparr>))))
         else Inr (Inr l))"

subsection \<open>The bodies of \<^verbatim>\<open>Run\<close>'s select cases\<close>

text \<open>
  The case of \<^verbatim>\<open>requestedChanges\<close> (lines 103 to 133) up to its two sends: the retained
  configuration is marshalled and, with a debug path, written; then the applet is loaded
  and the update built. The result is the panic that ends the process, or the loader, the
  files and the update to send. What \<^verbatim>\<open>log.Printf\<close> prints is left out.
\<close>

definition requestCycle ::
  "('fs, 'app, 'roots, 'screens) env \<Rightarrow> ('fs, 'app) Loader \<Rightarrow> config \<Rightarrow> disk
     \<Rightarrow> fault + (('fs, 'app) Loader \<times> disk \<times> Update)" where
  "requestCycle env l config d =
     (let up = Update0
      in case Marshal env config of
           Inl err \<Rightarrow> Inl (PanicError err)
         | Inr byteSlice \<Rightarrow>
             (case (if configOutFile l \<noteq> [] then WriteFile env (configOutFile l) byteSlice d
                    else Inr d) of
                Inl err \<Rightarrow> Inl (PanicError err)
              | Inr d' \<Rightarrow>
                  (case loadApplet env l d' config of
                     Inl f \<Rightarrow> Inl f
                   | Inr (l', Inl err) \<Rightarrow> Inr (l', d', up\<lparr>Err := Some err\<rparr>)
                   | Inr (l', Inr img) \<Rightarrow>
                       Inr (l', d',
                            up\<lparr>Image := img,
                               ImageType := (if renderGif l' then ''gif'' else ''webp'')\<rparr>))))"

text \<open>The case of \<^verbatim>\<open>fileChanges\<close> (lines 134 to 151) up to its send.\<close>

definition fileCycle ::
  "('fs, 'app, 'roots, 'screens) env \<Rightarrow> ('fs, 'app) Loader \<Rightarrow> config \<Rightarrow> disk
     \<Rightarrow> fault + (('fs, 'app) Loader \<times> Update)" where
  "fileCycle env l config d =
     (let up = Update0
      in case loadApplet env l d config of
           Inl f \<Rightarrow> Inl f
         | Inr (l', Inl err) \<Rightarrow> Inr (l', up\<lparr>Err := Some err\<rparr>)
         | Inr (l', Inr img) \<Rightarrow>
             Inr (l',
                  up\<lparr>Image := img,
                     ImageType := (if renderGif l' then ''gif'' else ''webp''),
                     Schema := SchemaJSON env (applet l')\<rparr>))"

section \<open>Package browser\<close>

text \<open>
  What the browser calls and this development does not define: the hub's
  \<^verbatim>\<open>NewFanout\<close>, \<^verbatim>\<open>NewClient\<close> and \<^verbatim>\<open>Broadcast\<close> (package fanout) and the websocket
  upgrade of a request.
\<close>

record ('req, 'conn, 'fo) benv =
  Upgrade :: "'req \<Rightarrow> error + 'conn"
  NewFanout :: 'fo
  NewClient :: "'conn \<Rightarrow> 'fo \<Rightarrow> 'fo"
  Broadcast :: "WebsocketEvent \<Rightarrow> 'fo \<Rightarrow> 'fo"

text \<open>\<^verbatim>\<open>strings.HasPrefix\<close> and \<^verbatim>\<open>strings.HasSuffix\<close>.\<close>

definition HasPrefix :: "string \<Rightarrow> string \<Rightarrow> bool" where
  "HasPrefix s p = (take (length p) s = p)"

definition HasSuffix :: "string \<Rightarrow> string \<Rightarrow> bool" where
  "HasSuffix s p = (length p \<le> length s \<and> drop (length s - length p) s = p)"

text \<open>
  \<^verbatim>\<open>NewBrowser\<close>: the serve path gets its leading and trailing slash and the hub is a
  new one. This is the browser the code returns when it returns one: registering the
  routes, which panics in \<^verbatim>\<open>http.ServeMux\<close> on a serve path that makes a malformed
  pattern (a space, an empty segment, an open brace), is left out, and so is that panic.
\<close>

definition NewBrowser ::
  "('req, 'conn, 'fo) benv \<Rightarrow> string \<Rightarrow> string \<Rightarrow> string \<Rightarrow> bool \<Rightarrow> bool \<Rightarrow> 'fo Browser" where
  "NewBrowser be addr0 servePath title0 watch0 serveGif0 =
     (let servePath1 = (if \<not> HasPrefix servePath ''/'' then ''/'' @ servePath else servePath);
          servePath2 = (if \<not> HasSuffix servePath1 ''/'' then servePath1 @ ''/''
                        else servePath1)
      in \<lparr>addr = addr0, path = servePath2, title = title0, watch = watch0,
          fo = NewFanout be, serveGif = serveGif0\<rparr>)"

text \<open>
  \<^verbatim>\<open>websocketHandler\<close>: what became of the request, and the browser afterwards.
\<close>

datatype 'conn ws_result = NotAdmitted | UpgradeFailed error | Registered 'conn

definition websocketHandler ::
  "('req, 'conn, 'fo) benv \<Rightarrow> 'fo Browser \<Rightarrow> 'req \<Rightarrow> 'conn ws_result \<times> 'fo Browser" where
  "websocketHandler be b r =
     (if \<not> Browser.watch b then (NotAdmitted, b)
      else (case Upgrade be r of
              Inl err \<Rightarrow> (UpgradeFailed err, b)
            | Inr conn \<Rightarrow> (Registered conn, b\<lparr>fo := NewClient be conn (fo b)\<rparr>)))"

text \<open>The handler serving a sequence of requests, one after the other.\<close>

fun websocketHandler_all ::
  "('req, 'conn, 'fo) benv \<Rightarrow> 'fo Browser \<Rightarrow> 'req list \<Rightarrow> 'conn ws_result list \<times> 'fo Browser" where
  "websocketHandler_all be b [] = ([], b)"
| "websocketHandler_all be b (r # rs) =
     (case websocketHandler be b r of
        (x, b') \<Rightarrow> (case websocketHandler_all be b' rs of (xs, b'') \<Rightarrow> (x # xs, b'')))"

text \<open>
  One turn of \<^verbatim>\<open>updateWatcher\<close>'s loop, for the update \<open>up\<close> received from
  \<^verbatim>\<open>updateChan\<close> (lines 252 to 277).
\<close>

definition updateWatcher_recv ::
  "('req, 'conn, 'fo) benv \<Rightarrow> 'fo Browser \<Rightarrow> Update \<Rightarrow> 'fo Browser" where
  "updateWatcher_recv be b up =
     (let img_type = (if serveGif b then ''gif'' else ''webp'');
          fo1 = Broadcast be
                  \<lparr>Type = EventTypeImage, Message = Image up,
                   WebsocketEvent.ImageType = img_type\<rparr> (fo b);
          fo2 = (case Err up of
                   Some e \<Rightarrow>
                     Broadcast be
                       \<lparr>Type = EventTypeErr, Message = Error e,
                        WebsocketEvent.ImageType = []\<rparr> fo1
                 | None \<Rightarrow> fo1);
          fo3 = (if Schema up \<noteq> [] then
                   Broadcast be
                     \<lparr>Type = EventTypeSchema, Message = Schema up,
                      WebsocketEvent.ImageType = []\<rparr> fo2
                 else fo2)
      in b\<lparr>fo := fo3\<rparr>)"

section \<open>The server: the loop, its callers and the watcher, interleaved\<close>

text \<open>
  A caller of \<^verbatim>\<open>Loader.LoadApplet(config)\<close> (lines 163 to 168) is about to send its
  configuration, or its request, or to receive its result, or it has returned.
\<close>

datatype caller = Calling config | SentConfig | SentRequest | Returned string "error option"

text \<open>
  Where \<^verbatim>\<open>Loader.Run\<close> stands: at its select; about to send an update on
  \<^verbatim>\<open>updatesChan\<close> (and then, for an on-demand cycle, on \<^verbatim>\<open>resultsChan\<close>); about to send
  on \<^verbatim>\<open>resultsChan\<close>; or ended by a panic.
\<close>

datatype loop_pc = AtSelect | SendUpdates Update bool | SendResults Update | Panicked fault

record ('fs, 'app, 'fo) server =
  ldr :: "('fs, 'app) Loader"
  config :: config
  pc :: loop_pc
  files :: disk
  callers :: "caller list"
  browser :: "'fo Browser"

text \<open>
  The steps a scheduler chooses from: caller \<open>i\<close> takes its next step; the loop's select
  takes one of its three cases; the loop performs its pending send; the watcher receives an
  update; the file watcher signals a change; a file is edited.
\<close>

datatype action =
  Call nat | SelectConfig | SelectRequest | SelectFile | LoopSend | Watcher | Notify
  | Edit string string

definition callerStep :: "nat \<Rightarrow> ('fs, 'app, 'fo) server \<Rightarrow> ('fs, 'app, 'fo) server option" where
  "callerStep i s =
     (if i < length (callers s) then
        (case callers s ! i of
           Calling c \<Rightarrow>
             (case send c (configChanges (ldr s)) of
                None \<Rightarrow> None
              | Some ch \<Rightarrow>
                  Some (s\<lparr>ldr := (ldr s)\<lparr>configChanges := ch\<rparr>,
                          callers := (callers s)[i := SentConfig]\<rparr>))
         | SentConfig \<Rightarrow>
             (case send True (requestedChanges (ldr s)) of
                None \<Rightarrow> None
              | Some ch \<Rightarrow>
                  Some (s\<lparr>ldr := (ldr s)\<lparr>requestedChanges := ch\<rparr>,
                          callers := (callers s)[i := SentRequest]\<rparr>))
         | SentRequest \<Rightarrow>
             (case recv (resultsChan (ldr s)) of
                None \<Rightarrow> None
              | Some (result, ch) \<Rightarrow>
                  Some (s\<lparr>ldr := (ldr s)\<lparr>resultsChan := ch\<rparr>,
                          callers := (callers s)[i := Returned (Image result) (Err result)]\<rparr>))
         | Returned img err \<Rightarrow> None)
      else None)"

definition selectConfig :: "('fs, 'app, 'fo) server \<Rightarrow> ('fs, 'app, 'fo) server option" where
  "selectConfig s =
     (case recv (configChanges (ldr s)) of
        None \<Rightarrow> None
      | Some (c, ch) \<Rightarrow> Some (s\<lparr>ldr := (ldr s)\<lparr>configChanges := ch\<rparr>, config := c\<rparr>))"

definition selectRequest ::
  "('fs, 'app, 'roots, 'screens) env \<Rightarrow> ('fs, 'app, 'fo) server
     \<Rightarrow> ('fs, 'app, 'fo) server option" where
  "selectRequest env s =
     (case recv (requestedChanges (ldr s)) of
        None \<Rightarrow> None
      | Some (x, ch) \<Rightarrow>
          (let l = (ldr s)\<lparr>requestedChanges := ch\<rparr>
           in case requestCycle env l (config s) (files s) of
                Inl f \<Rightarrow> Some (s\<lparr>ldr := l, pc := Panicked f\<rparr>)
              | Inr (l', d', up) \<Rightarrow>
                  Some (s\<lparr>ldr := l', files := d', pc := SendUpdates up True\<rparr>)))"

text \<open>
  On an unbuffered \<^verbatim>\<open>fileChanges\<close> the receive meets the file watcher's send; on a
  buffered one it takes the oldest signal.
\<close>

definition selectFile ::
  "('fs, 'app, 'roots, 'screens) env \<Rightarrow> ('fs, 'app, 'fo) server
     \<Rightarrow> ('fs, 'app, 'fo) server option" where
  "selectFile env s =
     (case (case recv (fileChanges (ldr s)) of
              Some (x, ch) \<Rightarrow> Some ch
            | None \<Rightarrow> (if cap (fileChanges (ldr s)) = 0 then Some (fileChanges (ldr s))
                       else None)) of
        None \<Rightarrow> None
      | Some ch \<Rightarrow>
          (let l = (ldr s)\<lparr>fileChanges := ch\<rparr>
           in case fileCycle env l (config s) (files s) of
                Inl f \<Rightarrow> Some (s\<lparr>ldr := l, pc := Panicked f\<rparr>)
              | Inr (l', up) \<Rightarrow> Some (s\<lparr>ldr := l', pc := SendUpdates up False\<rparr>)))"

definition loopSend :: "('fs, 'app, 'fo) server \<Rightarrow> ('fs, 'app, 'fo) server option" where
  "loopSend s =
     (case pc s of
        SendUpdates up reply \<Rightarrow>
          (case send up (updatesChan (ldr s)) of
             None \<Rightarrow> None
           | Some ch \<Rightarrow>
               Some (s\<lparr>ldr := (ldr s)\<lparr>updatesChan := ch\<rparr>,
                       pc := (if reply then SendResults up else AtSelect)\<rparr>))
      | SendResults up \<Rightarrow>
          (case send up (resultsChan (ldr s)) of
             None \<Rightarrow> None
           | Some ch \<Rightarrow> Some (s\<lparr>ldr := (ldr s)\<lparr>resultsChan := ch\<rparr>, pc := AtSelect\<rparr>))
      | AtSelect \<Rightarrow> None
      | Panicked f \<Rightarrow> None)"

text \<open>
  The watcher takes the oldest buffered update; on an unbuffered channel it takes the
  update the loop is waiting to send.
\<close>

definition watcherStep ::
  "('req, 'conn, 'fo) benv \<Rightarrow> ('fs, 'app, 'fo) server \<Rightarrow> ('fs, 'app, 'fo) server option" where
  "watcherStep be s =
     (case recv (updatesChan (ldr s)) of
        Some (up, ch) \<Rightarrow>
          Some (s\<lparr>ldr := (ldr s)\<lparr>updatesChan := ch\<rparr>,
                  browser := updateWatcher_recv be (browser s) up\<rparr>)
      | None \<Rightarrow>
          (case pc s of
             SendUpdates up reply \<Rightarrow>
               (if cap (updatesChan (ldr s)) = 0 then
                  Some (s\<lparr>pc := (if reply then SendResults up else AtSelect),
                          browser := updateWatcher_recv be (browser s) up\<rparr>)
                else None)
           | SendResults up \<Rightarrow> None
           | AtSelect \<Rightarrow> None
           | Panicked f \<Rightarrow> None))"

definition notifyStep :: "('fs, 'app, 'fo) server \<Rightarrow> ('fs, 'app, 'fo) server option" where
  "notifyStep s =
     (case send True (fileChanges (ldr s)) of
        None \<Rightarrow> None
      | Some ch \<Rightarrow> Some (s\<lparr>ldr := (ldr s)\<lparr>fileChanges := ch\<rparr>\<rparr>))"

text \<open>
  One step of the server; \<open>None\<close> when the step cannot be taken now (the party is blocked,
  or a panic has ended the process).
\<close>

definition step ::
  "('fs, 'app, 'roots, 'screens) env \<Rightarrow> ('req, 'conn, 'fo) benv \<Rightarrow> action
     \<Rightarrow> ('fs, 'app, 'fo) server \<Rightarrow> ('fs, 'app, 'fo) server option" where
  "step env be a s =
     (case pc s of
        Panicked f \<Rightarrow> None
      | _ \<Rightarrow>
          (case a of
             Call i \<Rightarrow> callerStep i s
           | SelectConfig \<Rightarrow> (if pc s = AtSelect then selectConfig s else None)
           | SelectRequest \<Rightarrow> (if pc s = AtSelect then selectRequest env s else None)
           | SelectFile \<Rightarrow> (if pc s = AtSelect then selectFile env s else None)
           | LoopSend \<Rightarrow> loopSend s
           | Watcher \<Rightarrow> watcherStep be s
           | Notify \<Rightarrow> notifyStep s
           | Edit name data \<Rightarrow> Some (s\<lparr>files := (files s)(name \<mapsto> data)\<rparr>)))"

fun run ::
  "('fs, 'app, 'roots, 'screens) env \<Rightarrow> ('req, 'conn, 'fo) benv \<Rightarrow> action list
     \<Rightarrow> ('fs, 'app, 'fo) server \<Rightarrow> ('fs, 'app, 'fo) server option" where
  "run env be [] s = Some s"
| "run env be (a # as) s =
     (case step env be a s of
        None \<Rightarrow> None
      | Some s' \<Rightarrow> run env be as s')"

text \<open>
  The server as \<^verbatim>\<open>Run\<close> finds it: the loader \<open>l\<close>, the empty configuration
  (\<^verbatim>\<open>make(map[string]string)\<close>), the loop at its select.
\<close>

definition start ::
  "('fs, 'app) Loader \<Rightarrow> disk \<Rightarrow> caller list \<Rightarrow> 'fo Browser \<Rightarrow> ('fs, 'app, 'fo) server" where
  "start l d cs b =
     \<lparr>ldr = l, config = [], pc = AtSelect, files = d, callers = cs, browser = b\<rparr>"

section \<open>The collaborators that are not among the sources\<close>

text \<open>
  Modelled from the spec: \<^verbatim>\<open>runtime.Applet.RunWithConfig\<close> is not among the sources. The
  spec says of it: "Execute the Executable Unit with the retained configuration under a
  deadline equal to a configured timeout in milliseconds; a deadline overrun surfaces as a
  timeout failure carrying the configured duration." Here \<open>exec a c\<close> is the time, in
  nanoseconds, that running applet \<open>a\<close> with configuration \<open>c\<close> takes, and what it returns
  when it is left to finish; the failure of an overrun is the context's cause.
\<close>

definition RunWithConfig_spec ::
  "('app \<Rightarrow> config \<Rightarrow> int \<times> (error + 'roots)) \<Rightarrow> 'app \<Rightarrow> context \<Rightarrow> config
     \<Rightarrow> error + 'roots" where
  "RunWithConfig_spec exec a ctx c =
     (if sint (deadline ctx) < fst (exec a c) then Inl (cause ctx) else snd (exec a c))"

text \<open>
  Modelled from the spec: package fanout is not among the sources. The spec says of the
  hub: "register(connection): admits a new live connection; its send queue starts empty"
  and "broadcast(event): given one outcome-derived event, enqueues it for delivery to every
  currently registered connection". The registry is the list of the connections with
  their queues; \<^verbatim>\<open>fanout.NewFanout()\<close> is the empty registry.
\<close>

type_synonym 'conn hub = "('conn \<times> WebsocketEvent list) list"

definition hub_NewFanout :: "'conn hub" where
  "hub_NewFanout = []"

definition hub_NewClient :: "'conn \<Rightarrow> 'conn hub \<Rightarrow> 'conn hub" where
  "hub_NewClient conn h = h @ [(conn, [])]"

definition hub_Broadcast :: "WebsocketEvent \<Rightarrow> 'conn hub \<Rightarrow> 'conn hub" where
  "hub_Broadcast e h = map (\<lambda>(conn, q). (conn, q @ [e])) h"

subsection \<open>\<^verbatim>\<open>json.Marshal\<close> of a \<^verbatim>\<open>map[string]string\<close>\<close>

text \<open>
  As package encoding/json (Go 1.22 and later) writes a non-nil map of strings whose keys
  and values are ASCII: the keys in increasing order, each string quoted, with \<^verbatim>\<open>"\<close> and
  \<^verbatim>\<open>\\<close> behind a backslash, backspace, form feed, line feed, carriage return and tab as
  \<^verbatim>\<open>\b\<close>, \<^verbatim>\<open>\f\<close>, \<^verbatim>\<open>\n\<close>, \<^verbatim>\<open>\r\<close>, \<^verbatim>\<open>\t\<close>, and the other control characters and
  \<^verbatim>\<open><\<close>, \<^verbatim>\<open>>\<close>, \<^verbatim>\<open>&\<close> as \<^verbatim>\<open>\u00XX\<close>. It never fails on such a map. Bytes from 0x80
  on are copied as they are: what encoding/json does with invalid UTF-8 and with U+2028
  and U+2029 is not modelled, nor is the nil map (\<^verbatim>\<open>null\<close>), which \<^verbatim>\<open>Run\<close> never holds.
\<close>

definition hexdigit :: "nat \<Rightarrow> char" where
  "hexdigit d = ''0123456789abcdef'' ! (d mod 16)"

definition json_char :: "char \<Rightarrow> string" where
  "json_char ch =
     (let n = (of_char ch :: nat)
      in if n = 34 then [CHR 0x5C, CHR 0x22]
         else if n = 92 then [CHR 0x5C, CHR 0x5C]
         else if n = 8 then [CHR 0x5C, CHR ''b'']
         else if n = 12 then [CHR 0x5C, CHR ''f'']
         else if n = 10 then [CHR 0x5C, CHR ''n'']
         else if n = 13 then [CHR 0x5C, CHR ''r'']
         else if n = 9 then [CHR 0x5C, CHR ''t'']
         else if n < 32 \<or> n = 60 \<or> n = 62 \<or> n = 38 then
           [CHR 0x5C, CHR ''u'', CHR ''0'', CHR ''0'', hexdigit (n div 16), hexdigit (n mod 16)]
         else [ch])"

definition json_string :: "string \<Rightarrow> string" where
  "json_string s = [CHR 0x22] @ concat (map json_char s) @ [CHR 0x22]"

fun str_le :: "string \<Rightarrow> string \<Rightarrow> bool" where
  "str_le [] ys = True"
| "str_le (x # xs) [] = False"
| "str_le (x # xs) (y # ys) =
     (if (of_char x :: nat) < of_char y then True
      else if (of_char y :: nat) < of_char x then False
      else str_le xs ys)"

fun insert_key :: "string \<Rightarrow> string list \<Rightarrow> string list" where
  "insert_key k [] = [k]"
| "insert_key k (x # xs) = (if str_le k x then k # x # xs else x # insert_key k xs)"

definition sorted_keys :: "config \<Rightarrow> string list" where
  "sorted_keys c = foldr insert_key (remdups (map fst c)) []"

fun join_members :: "string list \<Rightarrow> string" where
  "join_members [] = []"
| "join_members [m] = m"
| "join_members (m # n # ms) = m @ '','' @ join_members (n # ms)"

definition json_member :: "config \<Rightarrow> string \<Rightarrow> string" where
  "json_member c k =
     json_string k @ '':'' @ json_string (case map_of c k of Some v \<Rightarrow> v | None \<Rightarrow> [])"

definition json_Marshal :: "config \<Rightarrow> error + string" where
  "json_Marshal c = Inr (''{'' @ join_members (map (json_member c) (sorted_keys c)) @ ''}'')"

subsection \<open>A small world to run the server in\<close>

text \<open>
  An applet is the text of its script: \<^verbatim>\<open>main.star\<close> must exist and be non-empty to load.
  The script \<^verbatim>\<open>slow\<close> takes 500ms to run, any other 1ms; \<^verbatim>\<open>blank\<close> returns no content
  to draw, \<^verbatim>\<open>broken\<close> fails, and any other script draws the value of the configuration's
  key \<^verbatim>\<open>x\<close>. The encoders return the content behind a format tag, and no bytes for no
  content.
\<close>

definition demo_exec :: "string \<Rightarrow> config \<Rightarrow> int \<times> (error + string)" where
  "demo_exec a c =
     (if a = ''slow'' then 500000000 else 1000000,
      if a = ''blank'' then Inr []
      else if a = ''broken'' then Inl (New ''main() failed'')
      else Inr (''x='' @ (case map_of c ''x'' of Some v \<Rightarrow> v | None \<Rightarrow> [])))"

definition demo :: "(unit, string, string, string) env" where
  \<open>demo =
     \<lparr>loadScript = (\<lambda>appID fs0 d.
          case d ''main.star'' of
            None \<Rightarrow> Inl (New ''open main.star: file does not exist'')
          | Some src \<Rightarrow> (if src = [] then Inl (New ''no main() function'') else Inr src)),
      emptyApplet = [],
      SchemaJSON = (\<lambda>a. if a = [] then [] else ''{"version":"1","schema":[]}''),
      RunWithConfig = RunWithConfig_spec demo_exec,
      ScreensFromRoots = (\<lambda>roots. roots),
      ShowFullAnimation = (\<lambda>screens. False),
      EncodeGIF = (\<lambda>screens d. Inr (if screens = [] then [] else ''GIF89a'' @ screens)),
      EncodeWebP = (\<lambda>screens d. Inr (if screens = [] then [] else ''RIFF'' @ screens)),
      Marshal = json_Marshal,
      WriteFileErr = (\<lambda>name. if name = ''/proc/config.json''
                              then Some (New ''open /proc/config.json: permission denied'')
                              else None)\<rparr>\<close>

definition demo_benv :: "(nat, nat, nat hub) benv" where
  "demo_benv =
     \<lparr>Upgrade = (\<lambda>r. if r = 0 then Inl (New ''websocket: not a websocket handshake'')
                      else Inr r),
      NewFanout = hub_NewFanout,
      NewClient = hub_NewClient,
      Broadcast = hub_Broadcast\<rparr>"

definition demo_browser :: "bool \<Rightarrow> nat hub Browser" where
  "demo_browser w = NewBrowser demo_benv ''127.0.0.1:8080'' ''pixlet'' ''main.star'' w False"

text \<open>The loader as \<^verbatim>\<open>NewLoader\<close> returns it in watch mode, with buffered channels.\<close>

definition demo_loader :: "bool \<Rightarrow> 64 word \<Rightarrow> string \<Rightarrow> string \<Rightarrow> (unit, string) Loader" where
  "demo_loader w t out a =
     \<lparr>fs = (), fileChanges = make_chan 100, watch = w, applet = a,
      configChanges = make_chan 100, requestedChanges = make_chan 100,
      updatesChan = make_chan 100, resultsChan = make_chan 100, maxDuration = 15000,
      initialLoad = (make_chan 0)\<lparr>closed := \<not> w\<rparr>, timeout = t, renderGif = False,
      configOutFile = out\<rparr>"

text \<open>
  The server started on the script \<open>a\<close> (loaded already unless the loader watches), with
  the debug path \<open>out\<close> and the callers \<open>cs\<close>.
\<close>

definition demo_server ::
  "bool \<Rightarrow> string \<Rightarrow> string \<Rightarrow> caller list \<Rightarrow> (unit, string, nat hub) server" where
  "demo_server w out a cs =
     start (demo_loader w 30000 out (if w then [] else a)) (Map.empty(''main.star'' \<mapsto> a)) cs
       (demo_browser w)"

section \<open>The release operation and \<^verbatim>\<open>loadApplet\<close>, case by case\<close>

lemmas cycle_defs =
  requestCycle_def fileCycle_def loadApplet_def renderApplet_def runContext_def
  markInitialLoadComplete_def close_chan_def WriteFile_def WithTimeoutCause_def
  Millisecond_def Update0_def RunWithConfig_spec_def

lemmas server_defs =
  step_def callerStep_def selectConfig_def selectRequest_def selectFile_def loopSend_def
  watcherStep_def notifyStep_def updateWatcher_recv_def send_def recv_def start_def

lemmas demo_defs =
  demo_def demo_exec_def demo_benv_def demo_browser_def demo_loader_def make_chan_def
  hub_NewFanout_def hub_NewClient_def hub_Broadcast_def demo_server_def
  NewBrowser_def HasPrefix_def HasSuffix_def

lemmas text_defs =
  json_Marshal_def sorted_keys_def json_member_def json_string_def json_char_def
  hexdigit_def b64_def encodeStd_def itoa_def digit_def digits.simps

lemma markInitialLoadComplete_eq:
  "markInitialLoadComplete l = Inr (l\<lparr>initialLoad := (initialLoad l)\<lparr>closed := True\<rparr>\<rparr>)"
  by (simp add: markInitialLoadComplete_def close_chan_def)

lemma markInitialLoadComplete_closed:
  "closed (initialLoad l) \<Longrightarrow> markInitialLoadComplete l = Inr l"
  by (simp add: markInitialLoadComplete_def)

lemma markInitialLoadComplete_times_eq:
  "markInitialLoadComplete_times (Suc n) l = markInitialLoadComplete l"
proof (induction n arbitrary: l)
  case 0
  show ?case by (simp add: markInitialLoadComplete_eq)
next
  case (Suc n)
  have "markInitialLoadComplete_times (Suc (Suc n)) l =
        markInitialLoadComplete_times (Suc n) (l\<lparr>initialLoad := (initialLoad l)\<lparr>closed := True\<rparr>\<rparr>)"
    by (simp add: markInitialLoadComplete_eq)
  also have "\<dots> = markInitialLoadComplete (l\<lparr>initialLoad := (initialLoad l)\<lparr>closed := True\<rparr>\<rparr>)"
    by (rule Suc.IH)
  also have "\<dots> = markInitialLoadComplete l"
    by (simp add: markInitialLoadComplete_eq)
  finally show ?case .
qed

lemma loadApplet_watch_fail:
  "watch l \<Longrightarrow> loadScript env ''app-id'' (fs l) d = Inl err \<Longrightarrow>
   loadApplet env l d c = Inr (l\<lparr>initialLoad := (initialLoad l)\<lparr>closed := True\<rparr>\<rparr>, Inl err)"
  by (simp add: loadApplet_def markInitialLoadComplete_eq)

lemma loadApplet_watch_ok:
  "watch l \<Longrightarrow> loadScript env ''app-id'' (fs l) d = Inr app \<Longrightarrow>
   loadApplet env l d c =
     Inr (l\<lparr>initialLoad := (initialLoad l)\<lparr>closed := True\<rparr>, applet := app\<rparr>,
          renderApplet env (l\<lparr>initialLoad := (initialLoad l)\<lparr>closed := True\<rparr>, applet := app\<rparr>) c)"
  by (simp add: loadApplet_def markInitialLoadComplete_eq Let_def)

lemma loadApplet_nowatch:
  "\<not> watch l \<Longrightarrow> loadApplet env l d c = Inr (l, renderApplet env l c)"
  by (simp add: loadApplet_def)

lemma loadApplet_total:
  "\<exists>l' r. loadApplet env l d c = Inr (l', r)"
  by (cases "watch l"; cases "loadScript env ''app-id'' (fs l) d")
     (simp_all add: loadApplet_watch_fail loadApplet_watch_ok loadApplet_nowatch)

lemma loadApplet_gate:
  assumes "loadApplet env l d c = Inr (l', r)"
  shows "closed (initialLoad l') = (watch l \<or> closed (initialLoad l))"
  using assms
  by (cases "watch l"; cases "loadScript env ''app-id'' (fs l) d")
     (auto simp add: loadApplet_watch_fail loadApplet_watch_ok loadApplet_nowatch)

lemma loadApplet_frame:
  assumes "loadApplet env l d c = Inr (l', r)"
  shows "watch l' = watch l \<and> fs l' = fs l \<and> fileChanges l' = fileChanges l \<and>
         configChanges l' = configChanges l \<and> requestedChanges l' = requestedChanges l \<and>
         updatesChan l' = updatesChan l \<and> resultsChan l' = resultsChan l \<and>
         timeout l' = timeout l \<and> renderGif l' = renderGif l \<and>
         configOutFile l' = configOutFile l \<and> maxDuration l' = maxDuration l"
  using assms
  by (cases "watch l"; cases "loadScript env ''app-id'' (fs l) d")
     (auto simp add: loadApplet_watch_fail loadApplet_watch_ok loadApplet_nowatch)

section \<open>The Ready Gate never goes back to pending\<close>

lemma requestCycle_gate:
  assumes "requestCycle env l c d = Inr (l', d', up)"
  shows "closed (initialLoad l') = (watch l \<or> closed (initialLoad l))"
proof -
  from assms obtain d1 r where "loadApplet env l d1 c = Inr (l', r)"
    by (auto simp add: requestCycle_def Let_def split: sum.splits if_splits prod.splits)
  then show ?thesis by (rule loadApplet_gate)
qed

lemma fileCycle_gate:
  assumes "fileCycle env l c d = Inr (l', up)"
  shows "closed (initialLoad l') = (watch l \<or> closed (initialLoad l))"
proof -
  from assms obtain r where "loadApplet env l d c = Inr (l', r)"
    by (auto simp add: fileCycle_def Let_def split: sum.splits if_splits prod.splits)
  then show ?thesis by (rule loadApplet_gate)
qed

lemma step_gate:
  assumes "step env be a s = Some s'" and "closed (initialLoad (ldr s))"
  shows "closed (initialLoad (ldr s'))"
proof (cases a)
  case (Call i)
  with assms show ?thesis
    by (auto simp add: step_def callerStep_def split: loop_pc.splits if_splits caller.splits option.splits)
next
  case SelectConfig
  with assms show ?thesis
    by (auto simp add: step_def selectConfig_def split: loop_pc.splits if_splits option.splits)
next
  case SelectRequest
  with assms show ?thesis
    by (auto simp add: step_def selectRequest_def Let_def dest!: requestCycle_gate
        split: loop_pc.splits if_splits option.splits sum.splits)
next
  case SelectFile
  with assms show ?thesis
    by (auto simp add: step_def selectFile_def Let_def dest!: fileCycle_gate
        split: loop_pc.splits if_splits option.splits sum.splits)
next
  case LoopSend
  with assms show ?thesis
    by (auto simp add: step_def loopSend_def split: loop_pc.splits if_splits option.splits)
next
  case Watcher
  with assms show ?thesis
    by (auto simp add: step_def watcherStep_def split: loop_pc.splits if_splits option.splits)
next
  case Notify
  with assms show ?thesis
    by (auto simp add: step_def notifyStep_def split: loop_pc.splits if_splits option.splits)
next
  case (Edit n x)
  with assms show ?thesis
    by (auto simp add: step_def split: loop_pc.splits if_splits option.splits)
qed

lemma run_gate:
  "run env be as s = Some s' \<Longrightarrow> closed (initialLoad (ldr s)) \<Longrightarrow> closed (initialLoad (ldr s'))"
proof (induction as arbitrary: s)
  case Nil
  then show ?case by simp
next
  case (Cons a as)
  from Cons.prems(1) obtain s1 where s1: "step env be a s = Some s1" and r: "run env be as s1 = Some s'"
    by (auto split: option.splits)
  from s1 Cons.prems(2) have "closed (initialLoad (ldr s1))" by (rule step_gate)
  with r show ?case by (rule Cons.IH)
qed

lemma NewLoader_gate:
  assumes "NewLoader env d fs0 w fc uc md t g out = Inr (Inr l)"
  shows "closed (initialLoad l) = (\<not> w) \<and> watch l = w"
  using assms
  by (auto simp add: NewLoader_def Let_def markInitialLoadComplete_eq make_chan_def
      split: sum.splits if_splits)

lemma NewLoader_total:
  "\<exists>r. NewLoader env d fs0 w fc uc md t g out = Inr r"
  by (auto simp add: NewLoader_def Let_def markInitialLoadComplete_eq split: sum.splits)

text \<open>
  C4. The Ready Gate (\<^verbatim>\<open>initialLoad\<close>) goes from pending to released at most once, at the
  completion of the first load attempt whether it succeeded or failed, and the release
  operation can be invoked any number of times without faulting, every call after the
  first being a no-op. In the statement: \<^verbatim>\<open>markInitialLoadComplete\<close> never panics and
  leaves the gate released; any positive number of calls in a row does what one call does;
  on a released gate it changes nothing; \<^verbatim>\<open>NewLoader\<close> never panics and returns the gate
  pending in watch mode, released otherwise (where its own load is the first attempt);
  \<^verbatim>\<open>loadApplet\<close> never panics and leaves the gate released exactly when the loader
  watches (the load was attempted, with either result) or the gate was released before;
  and no run of the server takes a released gate back to pending.
\<close>

theorem ready_gate_one_shot:
  "markInitialLoadComplete l = Inr (l\<lparr>initialLoad := (initialLoad l)\<lparr>closed := True\<rparr>\<rparr>)
   \<and> markInitialLoadComplete_times (Suc n) l = markInitialLoadComplete l
   \<and> (closed (initialLoad l) \<longrightarrow> markInitialLoadComplete l = Inr l)
   \<and> (\<exists>r. NewLoader env d fs0 w fc uc md t g out = Inr r)
   \<and> (NewLoader env d fs0 w fc uc md t g out = Inr (Inr l0) \<longrightarrow>
        closed (initialLoad l0) = (\<not> w))
   \<and> (\<exists>l' r. loadApplet env l d c = Inr (l', r)
        \<and> closed (initialLoad l') = (watch l \<or> closed (initialLoad l)))
   \<and> (run env be as s = Some s' \<longrightarrow> closed (initialLoad (ldr s)) \<longrightarrow>
        closed (initialLoad (ldr s')))"
proof -
  obtain l' r where la: "loadApplet env l d c = Inr (l', r)"
    using loadApplet_total by blast
  then have "closed (initialLoad l') = (watch l \<or> closed (initialLoad l))"
    by (rule loadApplet_gate)
  with la have 6: "\<exists>l' r. loadApplet env l d c = Inr (l', r)
        \<and> closed (initialLoad l') = (watch l \<or> closed (initialLoad l))"
    by blast
  have 5: "NewLoader env d fs0 w fc uc md t g out = Inr (Inr l0) \<longrightarrow>
        closed (initialLoad l0) = (\<not> w)"
    by (auto dest: NewLoader_gate)
  have 7: "run env be as s = Some s' \<longrightarrow> closed (initialLoad (ldr s)) \<longrightarrow>
        closed (initialLoad (ldr s'))"
    by (auto dest: run_gate)
  have 3: "closed (initialLoad l) \<longrightarrow> markInitialLoadComplete l = Inr l"
    by (simp add: markInitialLoadComplete_closed)
  show ?thesis
    by (intro conjI markInitialLoadComplete_eq markInitialLoadComplete_times_eq 3
        NewLoader_total 5 6 7)
qed

lemma fileCycle_reload_fail:
  "watch l \<Longrightarrow> loadScript env ''app-id'' (fs l) d = Inl err \<Longrightarrow>
   fileCycle env l c d =
     Inr (l\<lparr>initialLoad := (initialLoad l)\<lparr>closed := True\<rparr>\<rparr>, Update0\<lparr>Err := Some err\<rparr>)"
  by (simp add: fileCycle_def loadApplet_watch_fail)

lemma requestCycle_reload_fail:
  "watch l \<Longrightarrow> Marshal env c = Inr bs \<Longrightarrow>
   (if configOutFile l \<noteq> [] then WriteFile env (configOutFile l) bs d else Inr d) = Inr d' \<Longrightarrow>
   loadScript env ''app-id'' (fs l) d' = Inl err \<Longrightarrow>
   requestCycle env l c d =
     Inr (l\<lparr>initialLoad := (initialLoad l)\<lparr>closed := True\<rparr>\<rparr>, d', Update0\<lparr>Err := Some err\<rparr>)"
  by (simp add: requestCycle_def loadApplet_watch_fail)

text \<open>
  C6. When a watch-mode reload fails, the cycle returns with the reload error as its
  outcome, the Ready Gate is released if it was not already, and the applet stored in the
  loader is left unchanged. In the statement the loader after \<^verbatim>\<open>loadApplet\<close> is the loader
  before with its gate released and nothing else changed; the file-change cycle and the
  on-demand cycle (once the configuration is marshalled and, with a debug path, written)
  give the update whose only content is the reload error.
\<close>

theorem failed_reload_keeps_applet:
  assumes "watch l" and "loadScript env ''app-id'' (fs l) d = Inl err"
  shows "loadApplet env l d c =
           Inr (l\<lparr>initialLoad := (initialLoad l)\<lparr>closed := True\<rparr>\<rparr>, Inl err)
       \<and> fileCycle env l c d =
           Inr (l\<lparr>initialLoad := (initialLoad l)\<lparr>closed := True\<rparr>\<rparr>, Update0\<lparr>Err := Some err\<rparr>)
       \<and> (Marshal env c = Inr bs \<and>
            (if configOutFile l \<noteq> [] then WriteFile env (configOutFile l) bs d0 else Inr d0) = Inr d
            \<longrightarrow> requestCycle env l c d0 =
                  Inr (l\<lparr>initialLoad := (initialLoad l)\<lparr>closed := True\<rparr>\<rparr>, d,
                       Update0\<lparr>Err := Some err\<rparr>))
       \<and> applet (l\<lparr>initialLoad := (initialLoad l)\<lparr>closed := True\<rparr>\<rparr>) = applet l
       \<and> closed (initialLoad (l\<lparr>initialLoad := (initialLoad l)\<lparr>closed := True\<rparr>\<rparr>))
       \<and> (closed (initialLoad l) \<longrightarrow>
            l\<lparr>initialLoad := (initialLoad l)\<lparr>closed := True\<rparr>\<rparr> = l)"
  using assms
  by (simp add: loadApplet_watch_fail fileCycle_reload_fail requestCycle_reload_fail)

lemma step_Panicked: "pc s = Panicked f \<Longrightarrow> step env be a s = None"
  by (simp add: step_def)

lemma requestCycle_no_panic:
  assumes "Marshal env c = Inr bs"
    and "configOutFile l = [] \<or> WriteFileErr env (configOutFile l) = None"
  shows "\<exists>l' d' up. requestCycle env l c d = Inr (l', d', up)"
proof -
  have "\<exists>d1. (if configOutFile l \<noteq> [] then WriteFile env (configOutFile l) bs d
                      else Inr d) = Inr d1"
    using assms(2) by (cases "configOutFile l = []") (simp_all add: WriteFile_def)
  then obtain d1 where w: "(if configOutFile l \<noteq> [] then WriteFile env (configOutFile l) bs d
                      else Inr d) = Inr d1" ..
  obtain l' r where "loadApplet env l d1 c = Inr (l', r)"
    using loadApplet_total by blast
  with assms(1) w show ?thesis
    by (cases r) (simp_all add: requestCycle_def)
qed

lemma requestCycle_marshal_panic:
  "Marshal env c = Inl e \<Longrightarrow> requestCycle env l c d = Inl (PanicError e)"
  by (simp add: requestCycle_def)

lemma requestCycle_write_panic:
  "Marshal env c = Inr bs \<Longrightarrow> configOutFile l \<noteq> [] \<Longrightarrow>
   WriteFileErr env (configOutFile l) = Some e \<Longrightarrow>
   requestCycle env l c d = Inl (PanicError e)"
  by (simp add: requestCycle_def WriteFile_def)

lemma selectRequest_write_panic:
  assumes "pc s = AtSelect" and "recv (requestedChanges (ldr s)) = Some (x, ch)"
    and "Marshal env (config s) = Inr bs" and "configOutFile (ldr s) \<noteq> []"
    and "WriteFileErr env (configOutFile (ldr s)) = Some e"
  shows "step env be SelectRequest s =
           Some (s\<lparr>ldr := (ldr s)\<lparr>requestedChanges := ch\<rparr>, pc := Panicked (PanicError e)\<rparr>)"
proof -
  have "requestCycle env ((ldr s)\<lparr>requestedChanges := ch\<rparr>) (config s) (files s)
          = Inl (PanicError e)"
    using assms(3-5) by (intro requestCycle_write_panic) simp_all
  with assms(1,2) show ?thesis
    by (simp add: step_def selectRequest_def)
qed

text \<open>
  C10. On an on-demand cycle with a debug path configured, a failure of \<^verbatim>\<open>os.WriteFile\<close>
  panics and ends the loop, as a failure of \<^verbatim>\<open>json.Marshal\<close> does; when marshalling and
  the write succeed (or no debug path is configured), the cycle does not panic. In the
  statement: the cycle's result is the panic with the marshalling error, or with the
  write error; it is an update otherwise; and in the server the select case of
  \<^verbatim>\<open>requestedChanges\<close> leaves the loop panicked, after which no step of any party can be
  taken.
\<close>

theorem debug_write_failure_panics:
  "(Marshal env c = Inl e \<longrightarrow> requestCycle env l c d = Inl (PanicError e))
   \<and> (Marshal env c = Inr bs \<and> configOutFile l \<noteq> [] \<and>
        WriteFileErr env (configOutFile l) = Some e \<longrightarrow>
        requestCycle env l c d = Inl (PanicError e))
   \<and> (Marshal env c = Inr bs \<and>
        (configOutFile l = [] \<or> WriteFileErr env (configOutFile l) = None) \<longrightarrow>
        (\<exists>l' d' up. requestCycle env l c d = Inr (l', d', up)))
   \<and> (pc s = AtSelect \<and> recv (requestedChanges (ldr s)) = Some (x, ch) \<and>
        Marshal env (config s) = Inr bs \<and> configOutFile (ldr s) \<noteq> [] \<and>
        WriteFileErr env (configOutFile (ldr s)) = Some e \<longrightarrow>
        (\<exists>s'. step env be SelectRequest s = Some s' \<and> pc s' = Panicked (PanicError e) \<and>
              step env be a s' = None))"
proof (intro conjI impI)
  assume "Marshal env c = Inl e"
  then show "requestCycle env l c d = Inl (PanicError e)"
    by (rule requestCycle_marshal_panic)
next
  assume "Marshal env c = Inr bs \<and> configOutFile l \<noteq> [] \<and>
        WriteFileErr env (configOutFile l) = Some e"
  then show "requestCycle env l c d = Inl (PanicError e)"
    by (auto intro: requestCycle_write_panic)
next
  assume "Marshal env c = Inr bs \<and>
        (configOutFile l = [] \<or> WriteFileErr env (configOutFile l) = None)"
  then show "\<exists>l' d' up. requestCycle env l c d = Inr (l', d', up)"
    using requestCycle_no_panic by blast
next
  assume a: "pc s = AtSelect \<and> recv (requestedChanges (ldr s)) = Some (x, ch) \<and>
        Marshal env (config s) = Inr bs \<and> configOutFile (ldr s) \<noteq> [] \<and>
        WriteFileErr env (configOutFile (ldr s)) = Some e"
  then have "step env be SelectRequest s =
           Some (s\<lparr>ldr := (ldr s)\<lparr>requestedChanges := ch\<rparr>, pc := Panicked (PanicError e)\<rparr>)"
    by (intro selectRequest_write_panic) simp_all
  then show "\<exists>s'. step env be SelectRequest s = Some s' \<and> pc s' = Panicked (PanicError e) \<and>
              step env be a s' = None"
    by (simp add: step_Panicked)
qed

text \<open>
  C9. A websocket request is admitted to the hub only in watch mode: without watch the
  handler returns at once, upgrades nothing and registers nothing, so the browser and its
  hub stay as they were over any sequence of requests, and the hub of a browser made by
  \<^verbatim>\<open>NewBrowser\<close> without watch stays the new hub it started as; a request is registered
  only by a watching browser, and then the hub gets the upgraded connection through
  \<^verbatim>\<open>NewClient\<close>.
\<close>

theorem websocket_admitted_only_in_watch_mode:
  "(\<not> Browser.watch b \<longrightarrow>
      websocketHandler be b r = (NotAdmitted, b)
      \<and> websocketHandler_all be b rs = (replicate (length rs) NotAdmitted, b))
   \<and> fo (snd (websocketHandler_all be (NewBrowser be a p t False g) rs)) = NewFanout be
   \<and> (fst (websocketHandler be b r) = Registered conn \<longrightarrow> Browser.watch b)
   \<and> (Browser.watch b \<and> Upgrade be r = Inr conn \<longrightarrow>
        websocketHandler be b r = (Registered conn, b\<lparr>fo := NewClient be conn (fo b)\<rparr>))"
proof -
  have 1: "\<not> Browser.watch b \<Longrightarrow> websocketHandler be b r = (NotAdmitted, b)" for r
    by (simp add: websocketHandler_def)
  have 2: "\<not> Browser.watch b \<Longrightarrow>
           websocketHandler_all be b rs = (replicate (length rs) NotAdmitted, b)" for b
    by (induction rs) (simp_all add: websocketHandler_def)
  have n: "\<not> Browser.watch (NewBrowser be a p t False g)"
    and f: "fo (NewBrowser be a p t False g) = NewFanout be"
    by (simp_all add: NewBrowser_def Let_def)
  have 5: "fo (snd (websocketHandler_all be (NewBrowser be a p t False g) rs)) = NewFanout be"
    by (simp add: 2 [OF n] f)
  have 3: "fst (websocketHandler be b r) = Registered conn \<longrightarrow> Browser.watch b"
    by (auto simp add: websocketHandler_def split: sum.splits)
  have 4: "Browser.watch b \<and> Upgrade be r = Inr conn \<longrightarrow>
        websocketHandler be b r = (Registered conn, b\<lparr>fo := NewClient be conn (fo b)\<rparr>)"
    by (simp add: websocketHandler_def)
  from 1 2 3 4 5 show ?thesis by blast
qed

text \<open>
  C3. For every update the watcher receives, the events handed to the hub's \<^verbatim>\<open>Broadcast\<close>
  are: one Image event (with the update's image, empty on a failure), then an Error event
  if and only if \<^verbatim>\<open>Err\<close> is not nil, then a Schema event if and only if \<^verbatim>\<open>Schema\<close> is not
  empty, in this order. The hub after the turn is the hub before with \<^verbatim>\<open>Broadcast\<close>
  applied to these events from left to right.
\<close>

theorem updateWatcher_events_in_order:
  "fo (updateWatcher_recv be b up) =
     fold (Broadcast be)
       ([\<lparr>Type = EventTypeImage, Message = Image up,
          WebsocketEvent.ImageType = (if serveGif b then ''gif'' else ''webp'')\<rparr>]
        @ (case Err up of
             None \<Rightarrow> []
           | Some e \<Rightarrow> [\<lparr>Type = EventTypeErr, Message = Error e, WebsocketEvent.ImageType = []\<rparr>])
        @ (if Schema up = [] then []
           else [\<lparr>Type = EventTypeSchema, Message = Schema up, WebsocketEvent.ImageType = []\<rparr>]))
       (fo b)"
  by (cases "Err up") (simp_all add: updateWatcher_recv_def Let_def)

section \<open>A configuration update\<close>

lemma selectConfig_eq:
  assumes "step env be SelectConfig s = Some s'"
  shows "pc s = AtSelect \<and>
         (\<exists>c ch. recv (configChanges (ldr s)) = Some (c, ch)
            \<and> s' = s\<lparr>ldr := (ldr s)\<lparr>configChanges := ch\<rparr>, config := c\<rparr>)"
  using assms
  by (auto simp add: step_def selectConfig_def split: loop_pc.splits if_splits option.splits)

lemma recv_eq:
  "recv ch = Some (x, ch') \<Longrightarrow> buf ch = x # buf ch' \<and> ch' = ch\<lparr>buf := tl (buf ch)\<rparr>"
  by (auto simp add: recv_def split: list.splits)

lemma selectFile_uses_config:
  assumes "step env be SelectFile s = Some s''"
  shows "\<exists>l. (\<exists>f. fileCycle env l (config s) (files s) = Inl f \<and> pc s'' = Panicked f)
            \<or> (\<exists>l' up. fileCycle env l (config s) (files s) = Inr (l', up)
                  \<and> pc s'' = SendUpdates up False \<and> ldr s'' = l')"
proof -
  from assms have sf: "selectFile env s = Some s''"
    by (auto simp add: step_def split: loop_pc.splits if_splits)
  then obtain ch where c:
    "(case fileCycle env ((ldr s)\<lparr>fileChanges := ch\<rparr>) (config s) (files s) of
        Inl f \<Rightarrow> Some (s\<lparr>ldr := (ldr s)\<lparr>fileChanges := ch\<rparr>, pc := Panicked f\<rparr>)
      | Inr (l', up) \<Rightarrow> Some (s\<lparr>ldr := l', pc := SendUpdates up False\<rparr>)) = Some s''"
    by (auto simp add: selectFile_def Let_def split: option.splits if_splits)
  show ?thesis
  proof (cases "fileCycle env ((ldr s)\<lparr>fileChanges := ch\<rparr>) (config s) (files s)")
    case (Inl f)
    with c have "pc s'' = Panicked f" by auto
    with Inl show ?thesis by blast
  next
    case (Inr r)
    obtain l' up where r: "r = (l', up)" by (cases r)
    with c Inr have "pc s'' = SendUpdates up False \<and> ldr s'' = l'" by auto
    with Inr r show ?thesis by blast
  qed
qed

lemma selectRequest_uses_config:
  assumes "step env be SelectRequest s = Some s''"
  shows "\<exists>l. (\<exists>f. requestCycle env l (config s) (files s) = Inl f \<and> pc s'' = Panicked f)
            \<or> (\<exists>l' d' up. requestCycle env l (config s) (files s) = Inr (l', d', up)
                  \<and> pc s'' = SendUpdates up True \<and> ldr s'' = l' \<and> files s'' = d')"
proof -
  from assms have sf: "selectRequest env s = Some s''"
    by (auto simp add: step_def split: loop_pc.splits if_splits)
  then obtain ch where c:
    "(case requestCycle env ((ldr s)\<lparr>requestedChanges := ch\<rparr>) (config s) (files s) of
        Inl f \<Rightarrow> Some (s\<lparr>ldr := (ldr s)\<lparr>requestedChanges := ch\<rparr>, pc := Panicked f\<rparr>)
      | Inr (l', d', up) \<Rightarrow> Some (s\<lparr>ldr := l', files := d', pc := SendUpdates up True\<rparr>))
     = Some s''"
    by (auto simp add: selectRequest_def Let_def split: option.splits if_splits)
  show ?thesis
  proof (cases "requestCycle env ((ldr s)\<lparr>requestedChanges := ch\<rparr>) (config s) (files s)")
    case (Inl f)
    with c have "pc s'' = Panicked f" by auto
    with Inl show ?thesis by blast
  next
    case (Inr r)
    obtain l' d' up where r: "r = (l', d', up)" by (cases r)
    with c Inr have "pc s'' = SendUpdates up True \<and> ldr s'' = l' \<and> files s'' = d'" by auto
    with Inr r show ?thesis by blast
  qed
qed

text \<open>
  C7. Processing a configuration update (the select case of \<^verbatim>\<open>configChanges\<close>) replaces
  the retained configuration wholesale and has no other effect: the server afterwards is
  the server before with the received configuration retained and taken out of the channel;
  nothing is sent on \<^verbatim>\<open>updatesChan\<close> or \<^verbatim>\<open>resultsChan\<close>, the loop is back at its select
  with no cycle run, and the applet, the Ready Gate, the files, the callers and the browser
  are unchanged. The new configuration is the one the next file-change or on-demand cycle
  runs with.
\<close>

theorem config_update_replaces_config_only:
  assumes "step env be SelectConfig s = Some s'"
  shows "\<exists>c ch. recv (configChanges (ldr s)) = Some (c, ch)
           \<and> s' = s\<lparr>ldr := (ldr s)\<lparr>configChanges := ch\<rparr>, config := c\<rparr>
           \<and> config s' = c
           \<and> pc s = AtSelect \<and> pc s' = AtSelect
           \<and> updatesChan (ldr s') = updatesChan (ldr s)
           \<and> resultsChan (ldr s') = resultsChan (ldr s)
           \<and> requestedChanges (ldr s') = requestedChanges (ldr s)
           \<and> fileChanges (ldr s') = fileChanges (ldr s)
           \<and> applet (ldr s') = applet (ldr s)
           \<and> initialLoad (ldr s') = initialLoad (ldr s)
           \<and> files s' = files s \<and> callers s' = callers s \<and> browser s' = browser s
           \<and> (\<forall>s''. step env be SelectFile s' = Some s'' \<longrightarrow>
                 (\<exists>l. (\<exists>f. fileCycle env l c (files s) = Inl f \<and> pc s'' = Panicked f)
                    \<or> (\<exists>l' up. fileCycle env l c (files s) = Inr (l', up)
                          \<and> pc s'' = SendUpdates up False \<and> ldr s'' = l')))
           \<and> (\<forall>s''. step env be SelectRequest s' = Some s'' \<longrightarrow>
                 (\<exists>l. (\<exists>f. requestCycle env l c (files s) = Inl f \<and> pc s'' = Panicked f)
                    \<or> (\<exists>l' d' up. requestCycle env l c (files s) = Inr (l', d', up)
                          \<and> pc s'' = SendUpdates up True \<and> ldr s'' = l'
                          \<and> files s'' = d')))"
proof -
  from assms obtain c ch where p: "pc s = AtSelect"
    and r: "recv (configChanges (ldr s)) = Some (c, ch)"
    and e: "s' = s\<lparr>ldr := (ldr s)\<lparr>configChanges := ch\<rparr>, config := c\<rparr>"
    using selectConfig_eq by blast
  have c': "config s' = c" and f': "files s' = files s"
    by (simp_all add: e)
  have sf: "\<forall>s''. step env be SelectFile s' = Some s'' \<longrightarrow>
                 (\<exists>l. (\<exists>f. fileCycle env l c (files s) = Inl f \<and> pc s'' = Panicked f)
                    \<or> (\<exists>l' up. fileCycle env l c (files s) = Inr (l', up)
                          \<and> pc s'' = SendUpdates up False \<and> ldr s'' = l'))"
    using selectFile_uses_config [of env be s'] by (simp only: c' f') blast
  have sr: "\<forall>s''. step env be SelectRequest s' = Some s'' \<longrightarrow>
                 (\<exists>l. (\<exists>f. requestCycle env l c (files s) = Inl f \<and> pc s'' = Panicked f)
                    \<or> (\<exists>l' d' up. requestCycle env l c (files s) = Inr (l', d', up)
                          \<and> pc s'' = SendUpdates up True \<and> ldr s'' = l'
                          \<and> files s'' = d'))"
    using selectRequest_uses_config [of env be s'] by (simp only: c' f') blast
  show ?thesis
    apply (rule exI [of _ c], rule exI [of _ ch])
    apply (intro conjI r e sf sr)
    apply (simp_all add: e p)
    done
qed

section \<open>The update of a cycle\<close>

lemma EncodeToString_empty: "(EncodeToString img = []) = (img = [])"
  by (cases img rule: EncodeToString.cases) (simp_all add: Let_def)

lemma renderApplet_image:
  assumes "renderApplet env l c = Inr img"
  shows "\<exists>scr m bytes. (EncodeGIF env scr m = Inr bytes \<or> EncodeWebP env scr m = Inr bytes)
           \<and> img = EncodeToString bytes"
  using assms
  by (auto simp add: renderApplet_def Let_def split: sum.splits if_splits)

lemma loadApplet_image:
  assumes "loadApplet env l d c = Inr (l', Inr img)"
  shows "\<exists>scr m bytes. (EncodeGIF env scr m = Inr bytes \<or> EncodeWebP env scr m = Inr bytes)
           \<and> img = EncodeToString bytes"
proof -
  from assms have "renderApplet env l' c = Inr img"
    by (cases "watch l"; cases "loadScript env ''app-id'' (fs l) d")
       (auto simp add: loadApplet_watch_fail loadApplet_watch_ok loadApplet_nowatch)
  then show ?thesis by (rule renderApplet_image)
qed

lemma requestCycle_update:
  assumes "requestCycle env l c d = Inr (l', d', up)"
  shows "(\<exists>err. loadApplet env l d' c = Inr (l', Inl err) \<and> up = Update0\<lparr>Err := Some err\<rparr>)
       \<or> (\<exists>img. loadApplet env l d' c = Inr (l', Inr img)
             \<and> up = Update0\<lparr>Image := img,
                             ImageType := (if renderGif l' then ''gif'' else ''webp'')\<rparr>)"
  using assms
  by (auto simp add: requestCycle_def Let_def split: sum.splits if_splits prod.splits)

lemma fileCycle_update:
  assumes "fileCycle env l c d = Inr (l', up)"
  shows "(\<exists>err. loadApplet env l d c = Inr (l', Inl err) \<and> up = Update0\<lparr>Err := Some err\<rparr>)
       \<or> (\<exists>img. loadApplet env l d c = Inr (l', Inr img)
             \<and> up = Update0\<lparr>Image := img,
                             ImageType := (if renderGif l' then ''gif'' else ''webp''),
                             Schema := SchemaJSON env (applet l')\<rparr>)"
  using assms
  by (auto simp add: fileCycle_def Let_def split: sum.splits if_splits prod.splits)

lemma renderApplet_bytes:
  "renderApplet env l c =
     (case renderBytes env l c of Inl e \<Rightarrow> Inl e | Inr img \<Rightarrow> Inr (EncodeToString img))"
  by (simp add: renderApplet_def renderBytes_def Let_def split: sum.splits)

lemma loadApplet_result:
  assumes "loadApplet env l d c = Inr (l', r)"
  shows "(watch l \<and> (\<exists>e. loadScript env ''app-id'' (fs l) d = Inl e) \<and> (\<exists>e. r = Inl e))
       \<or> (\<not> (watch l \<and> (\<exists>e. loadScript env ''app-id'' (fs l) d = Inl e))
            \<and> r = renderApplet env l' c)"
  using assms
  by (cases "watch l"; cases "loadScript env ''app-id'' (fs l) d")
     (auto simp add: loadApplet_watch_fail loadApplet_watch_ok loadApplet_nowatch)

text \<open>
  What a cycle's update holds, from what \<^verbatim>\<open>loadApplet\<close> returned in it: after a failed
  reload or a failed run or encoding, the error and no image; otherwise no error, the
  base64 of the bytes this cycle's encoder returned, which is empty exactly when they are.
\<close>

lemma update_of_loadApplet:
  assumes la: "loadApplet env l d c = Inr (l', r)"
    and e: "\<And>err. r = Inl err \<Longrightarrow> Image up = [] \<and> Err up = Some err"
    and i: "\<And>img. r = Inr img \<Longrightarrow> Image up = img \<and> Err up = None"
  shows "\<not> (Image up \<noteq> [] \<and> Err up \<noteq> None)
       \<and> (Err up = None \<longrightarrow>
            (\<exists>bytes. renderBytes env l' c = Inr bytes \<and> Image up = EncodeToString bytes))
       \<and> ((Image up = [] \<and> Err up = None) =
            (\<not> (watch l \<and> (\<exists>e. loadScript env ''app-id'' (fs l) d = Inl e))
             \<and> renderBytes env l' c = Inr []))"
proof (cases r)
  case (Inl err)
  with e have u: "Image up = []" "Err up = Some err" by simp_all
  from loadApplet_result [OF la] Inl
  have "(watch l \<and> (\<exists>e. loadScript env ''app-id'' (fs l) d = Inl e))
        \<or> renderApplet env l' c = Inl err"
    by auto
  then have "\<not> (\<not> (watch l \<and> (\<exists>e. loadScript env ''app-id'' (fs l) d = Inl e))
             \<and> renderBytes env l' c = Inr [])"
    by (auto simp add: renderApplet_bytes split: sum.splits)
  with u show ?thesis by simp
next
  case (Inr img)
  with i have u: "Image up = img" "Err up = None" by simp_all
  from loadApplet_result [OF la] Inr
  have n: "\<not> (watch l \<and> (\<exists>e. loadScript env ''app-id'' (fs l) d = Inl e))"
    and ra: "renderApplet env l' c = Inr img"
    by auto
  from ra obtain bytes where b: "renderBytes env l' c = Inr bytes" "img = EncodeToString bytes"
    by (auto simp add: renderApplet_bytes split: sum.splits)
  with u n show ?thesis
    by (auto simp add: EncodeToString_empty)
qed

text \<open>
  C2 states that every completed cycle's update has exactly one of a non-empty \<^verbatim>\<open>Image\<close>
  and a non-nil \<^verbatim>\<open>Err\<close>, and a non-empty \<^verbatim>\<open>Schema\<close> only on a file-change cycle. The
  code guarantees less: an applet that draws nothing is encoded to no bytes without an
  error, and the update then has neither (the counterexample below).
  C2, amended: the update of a completed cycle never has both a non-empty \<^verbatim>\<open>Image\<close> and a
  non-nil \<^verbatim>\<open>Err\<close>; without an error its \<^verbatim>\<open>Image\<close> is the base64 of the bytes the encoder
  returned in this cycle; and it has neither exactly when the reload, if there was one,
  succeeded and the encoder returned no bytes and no error in this cycle, so that in every
  other cycle exactly one of the two holds. \<^verbatim>\<open>Schema\<close> is empty on every on-demand cycle
  and on every failed file-change cycle. Here \<open>l'\<close> is the loader the cycle leaves, with
  the applet it ran.
\<close>

theorem cycle_outcome_exclusive:
  "(requestCycle env l c d = Inr (l', d', up) \<longrightarrow>
      \<not> (Image up \<noteq> [] \<and> Err up \<noteq> None)
      \<and> Schema up = []
      \<and> (Err up = None \<longrightarrow>
           (\<exists>bytes. renderBytes env l' c = Inr bytes \<and> Image up = EncodeToString bytes))
      \<and> ((Image up = [] \<and> Err up = None) =
           (\<not> (watch l \<and> (\<exists>e. loadScript env ''app-id'' (fs l) d' = Inl e))
            \<and> renderBytes env l' c = Inr [])))
   \<and> (fileCycle env l c d = Inr (l', up) \<longrightarrow>
      \<not> (Image up \<noteq> [] \<and> Err up \<noteq> None)
      \<and> (Err up \<noteq> None \<longrightarrow> Schema up = [])
      \<and> (Err up = None \<longrightarrow>
           (\<exists>bytes. renderBytes env l' c = Inr bytes \<and> Image up = EncodeToString bytes))
      \<and> ((Image up = [] \<and> Err up = None) =
           (\<not> (watch l \<and> (\<exists>e. loadScript env ''app-id'' (fs l) d = Inl e))
            \<and> renderBytes env l' c = Inr [])))"
proof (intro conjI impI)
  assume a: "requestCycle env l c d = Inr (l', d', up)"
  from requestCycle_update [OF a] obtain r where la: "loadApplet env l d' c = Inr (l', r)"
    and e: "\<And>err. r = Inl err \<Longrightarrow> Image up = [] \<and> Err up = Some err"
    and i: "\<And>img. r = Inr img \<Longrightarrow> Image up = img \<and> Err up = None"
    by (auto simp add: Update0_def)
  note t = update_of_loadApplet [OF la e i]
  from t show "\<not> (Image up \<noteq> [] \<and> Err up \<noteq> None)" by blast
  from requestCycle_update [OF a] show "Schema up = []"
    by (auto simp add: Update0_def)
  from t show "(Image up = [] \<and> Err up = None) =
           (\<not> (watch l \<and> (\<exists>e. loadScript env ''app-id'' (fs l) d' = Inl e))
            \<and> renderBytes env l' c = Inr [])" by blast
  assume "Err up = None"
  with t show "\<exists>bytes. renderBytes env l' c = Inr bytes \<and> Image up = EncodeToString bytes"
    by blast
next
  assume a: "fileCycle env l c d = Inr (l', up)"
  from fileCycle_update [OF a] obtain r where la: "loadApplet env l d c = Inr (l', r)"
    and e: "\<And>err. r = Inl err \<Longrightarrow> Image up = [] \<and> Err up = Some err"
    and i: "\<And>img. r = Inr img \<Longrightarrow> Image up = img \<and> Err up = None"
    by (auto simp add: Update0_def)
  note t = update_of_loadApplet [OF la e i]
  from t show "\<not> (Image up \<noteq> [] \<and> Err up \<noteq> None)" by blast
  from t show "(Image up = [] \<and> Err up = None) =
           (\<not> (watch l \<and> (\<exists>e. loadScript env ''app-id'' (fs l) d = Inl e))
            \<and> renderBytes env l' c = Inr [])" by blast
  { assume "Err up \<noteq> None"
    with fileCycle_update [OF a] show "Schema up = []"
      by (auto simp add: Update0_def) }
  assume "Err up = None"
  with t show "\<exists>bytes. renderBytes env l' c = Inr bytes \<and> Image up = EncodeToString bytes"
    by blast
qed

text \<open>
  The script \<^verbatim>\<open>blank\<close> returns nothing to draw: its cycles complete with an empty image
  and no error.
\<close>

theorem cycle_outcome_neither_counterexample:
  "requestCycle demo (demo_loader False 30000 [] ''blank'') [] Map.empty
     = Inr (demo_loader False 30000 [] ''blank'', Map.empty,
            \<lparr>Image = [], ImageType = ''webp'', Schema = [], Err = None\<rparr>)
   \<and> fileCycle demo (demo_loader False 30000 [] ''blank'') [] Map.empty
     = Inr (demo_loader False 30000 [] ''blank'',
            \<lparr>Image = [], ImageType = ''webp'', Schema = SchemaJSON demo ''blank'', Err = None\<rparr>)"
  by (simp add: cycle_defs demo_defs text_defs)

section \<open>The deadline of an execution\<close>

lemma runContext_deadline:
  assumes "- (2 ^ 63) \<le> sint (timeout l) * 1000000" and "sint (timeout l) * 1000000 < 2 ^ 63"
  shows "sint (deadline (runContext l)) = sint (timeout l) * 1000000"
proof -
  have "sint (timeout l * 1000000) = signed_take_bit 63 (sint (timeout l) * 1000000)"
    by (simp add: sint_word_mult)
  also have "\<dots> = sint (timeout l) * 1000000"
    using assms by (simp add: signed_take_bit_int_eq_self)
  finally show ?thesis
    by (simp add: runContext_def WithTimeoutCause_def Millisecond_def)
qed

lemma runContext_cause:
  "cause (runContext l) = New (''timeout after '' @ itoa (sint (timeout l)) @ ''ms'')"
  by (simp add: runContext_def WithTimeoutCause_def)

lemma renderApplet_overrun:
  assumes "RunWithConfig env = RunWithConfig_spec exec"
    and "sint (deadline (runContext l)) < fst (exec (applet l) c)"
  shows "renderApplet env l c = Inl (Wrap ''error running script: '' (cause (runContext l)))"
  using assms by (simp add: renderApplet_def RunWithConfig_spec_def)

lemma runContext_applet: "runContext (l\<lparr>initialLoad := g, applet := a\<rparr>) = runContext l"
  by (simp add: runContext_def)

lemma runContext_deadline_iff:
  "(sint (deadline (runContext l)) = sint (timeout l) * 1000000) =
     (- (2 ^ 63) \<le> sint (timeout l) * 1000000 \<and> sint (timeout l) * 1000000 < 2 ^ 63)"
proof
  assume e: "sint (deadline (runContext l)) = sint (timeout l) * 1000000"
  have "- (2 ^ 63) \<le> sint (deadline (runContext l))"
    using sint_ge [of "deadline (runContext l)"] by simp
  moreover have "sint (deadline (runContext l)) < 2 ^ 63"
    using sint_lt [of "deadline (runContext l)"] by simp
  ultimately show "- (2 ^ 63) \<le> sint (timeout l) * 1000000 \<and> sint (timeout l) * 1000000 < 2 ^ 63"
    by (simp only: e)
next
  assume "- (2 ^ 63) \<le> sint (timeout l) * 1000000 \<and> sint (timeout l) * 1000000 < 2 ^ 63"
  then show "sint (deadline (runContext l)) = sint (timeout l) * 1000000"
    by (intro runContext_deadline) simp_all
qed

lemma overrun_nowatch:
  assumes r: "RunWithConfig env = RunWithConfig_spec exec"
    and o: "sint (deadline (runContext l)) < fst (exec (applet l) c)"
    and w: "\<not> watch l"
  shows "loadApplet env l d c =
           Inr (l, Inl (Wrap ''error running script: '' (cause (runContext l))))"
  using renderApplet_overrun [OF r o] w by (simp add: loadApplet_nowatch)

lemma overrun_watch:
  assumes r: "RunWithConfig env = RunWithConfig_spec exec"
    and w: "watch l" and ls: "loadScript env ''app-id'' (fs l) d = Inr app"
    and o: "sint (deadline (runContext l)) < fst (exec app c)"
  shows "loadApplet env l d c =
           Inr (l\<lparr>initialLoad := (initialLoad l)\<lparr>closed := True\<rparr>, applet := app\<rparr>,
                Inl (Wrap ''error running script: '' (cause (runContext l))))"
proof -
  let ?l2 = "l\<lparr>initialLoad := (initialLoad l)\<lparr>closed := True\<rparr>, applet := app\<rparr>"
  have "sint (deadline (runContext ?l2)) < fst (exec (applet ?l2) c)"
    using o by (simp add: runContext_applet)
  with r have "renderApplet env ?l2 c =
      Inl (Wrap ''error running script: '' (cause (runContext ?l2)))"
    by (rule renderApplet_overrun)
  then have "renderApplet env ?l2 c =
      Inl (Wrap ''error running script: '' (cause (runContext l)))"
    by (simp only: runContext_applet)
  with w ls show ?thesis
    by (simp add: loadApplet_watch_ok)
qed

lemma fileCycle_error:
  "loadApplet env l d c = Inr (l', Inl err) \<Longrightarrow>
   fileCycle env l c d = Inr (l', Update0\<lparr>Err := Some err\<rparr>)"
  by (simp add: fileCycle_def)

lemma requestCycle_error:
  "Marshal env c = Inr bs \<Longrightarrow>
   (if configOutFile l \<noteq> [] then WriteFile env (configOutFile l) bs dpre else Inr dpre) = Inr d \<Longrightarrow>
   loadApplet env l d c = Inr (l', Inl err) \<Longrightarrow>
   requestCycle env l c dpre = Inr (l', d, Update0\<lparr>Err := Some err\<rparr>)"
  by (simp add: requestCycle_def)

text \<open>
  C5 states that every execution runs under a deadline of exactly the configured timeout
  in milliseconds, and that an overrun gives a timeout failure carrying the configured
  duration and no image. The deadline is \<^verbatim>\<open>time.Duration(l.timeout) * time.Millisecond\<close>,
  an int64 product that wraps: from 9223372036855 ms on it is not the configured timeout
  (the counterexample below).
  C5, amended: every execution runs under the deadline
  \<^verbatim>\<open>time.Duration(l.timeout) * time.Millisecond\<close>, which is exactly the configured timeout
  \<open>t\<close> in milliseconds if and only if \<open>- 2^63 \<le> t * 10^6 < 2^63\<close>, and whose cause is the
  error "timeout after \<open>t\<close>ms" for every \<open>t\<close>; the error of the run is the error of the
  cycle behind "error running script: "; and for every \<open>t\<close>, when the execution overruns
  that deadline (with \<^verbatim>\<open>RunWithConfig\<close> as the spec describes it), the update of the cycle,
  file-change or on-demand, with or without a reload before the run, carries that timeout
  error and no image.
\<close>

theorem execution_deadline_and_timeout:
  "((sint (deadline (runContext l)) = sint (timeout l) * 1000000) =
      (- (2 ^ 63) \<le> sint (timeout l) * 1000000 \<and> sint (timeout l) * 1000000 < 2 ^ 63))
   \<and> cause (runContext l) = New (''timeout after '' @ itoa (sint (timeout l)) @ ''ms'')
   \<and> (RunWithConfig env (applet l) (runContext l) c = Inl err \<longrightarrow>
        renderApplet env l c = Inl (Wrap ''error running script: '' err))
   \<and> (RunWithConfig env = RunWithConfig_spec exec \<and>
        sint (deadline (runContext l)) < fst (exec (applet l) c) \<longrightarrow>
        renderApplet env l c = Inl (Wrap ''error running script: '' (cause (runContext l)))
        \<and> (\<not> watch l \<longrightarrow>
             fileCycle env l c d =
               Inr (l, Update0\<lparr>Err := Some (Wrap ''error running script: ''
                                               (cause (runContext l)))\<rparr>)
             \<and> (Marshal env c = Inr bs \<and>
                  (if configOutFile l \<noteq> [] then WriteFile env (configOutFile l) bs dpre
                   else Inr dpre) = Inr d \<longrightarrow>
                  requestCycle env l c dpre =
                    Inr (l, d, Update0\<lparr>Err := Some (Wrap ''error running script: ''
                                                       (cause (runContext l)))\<rparr>))))
   \<and> (RunWithConfig env = RunWithConfig_spec exec \<and> watch l \<and>
        loadScript env ''app-id'' (fs l) d = Inr app \<and>
        sint (deadline (runContext l)) < fst (exec app c) \<longrightarrow>
        fileCycle env l c d =
          Inr (l\<lparr>initialLoad := (initialLoad l)\<lparr>closed := True\<rparr>, applet := app\<rparr>,
               Update0\<lparr>Err := Some (Wrap ''error running script: ''
                                       (cause (runContext l)))\<rparr>)
        \<and> (Marshal env c = Inr bs \<and>
             (if configOutFile l \<noteq> [] then WriteFile env (configOutFile l) bs dpre
              else Inr dpre) = Inr d \<longrightarrow>
             requestCycle env l c dpre =
               Inr (l\<lparr>initialLoad := (initialLoad l)\<lparr>closed := True\<rparr>, applet := app\<rparr>, d,
                    Update0\<lparr>Err := Some (Wrap ''error running script: ''
                                            (cause (runContext l)))\<rparr>)))"
proof (intro conjI impI)
  show "(sint (deadline (runContext l)) = sint (timeout l) * 1000000) =
      (- (2 ^ 63) \<le> sint (timeout l) * 1000000 \<and> sint (timeout l) * 1000000 < 2 ^ 63)"
    by (rule runContext_deadline_iff)
  show "cause (runContext l) = New (''timeout after '' @ itoa (sint (timeout l)) @ ''ms'')"
    by (rule runContext_cause)
next
  assume "RunWithConfig env (applet l) (runContext l) c = Inl err"
  then show "renderApplet env l c = Inl (Wrap ''error running script: '' err)"
    by (simp add: renderApplet_def)
next
  assume a: "RunWithConfig env = RunWithConfig_spec exec \<and>
        sint (deadline (runContext l)) < fst (exec (applet l) c)"
  then show "renderApplet env l c = Inl (Wrap ''error running script: '' (cause (runContext l)))"
    by (intro renderApplet_overrun [of env exec]) simp_all
  assume w: "\<not> watch l"
  from a w have la: "loadApplet env l d c =
           Inr (l, Inl (Wrap ''error running script: '' (cause (runContext l))))" for d
    by (intro overrun_nowatch [of env exec]) simp_all
  from la show "fileCycle env l c d =
               Inr (l, Update0\<lparr>Err := Some (Wrap ''error running script: ''
                                               (cause (runContext l)))\<rparr>)"
    by (rule fileCycle_error)
  assume "Marshal env c = Inr bs \<and>
                  (if configOutFile l \<noteq> [] then WriteFile env (configOutFile l) bs dpre
                   else Inr dpre) = Inr d"
  with la show "requestCycle env l c dpre =
                    Inr (l, d, Update0\<lparr>Err := Some (Wrap ''error running script: ''
                                                       (cause (runContext l)))\<rparr>)"
    by (intro requestCycle_error [of env c bs]) simp_all
next
  assume a: "RunWithConfig env = RunWithConfig_spec exec \<and> watch l \<and>
        loadScript env ''app-id'' (fs l) d = Inr app \<and>
        sint (deadline (runContext l)) < fst (exec app c)"
  then have la: "loadApplet env l d c =
           Inr (l\<lparr>initialLoad := (initialLoad l)\<lparr>closed := True\<rparr>, applet := app\<rparr>,
                Inl (Wrap ''error running script: '' (cause (runContext l))))"
    by (intro overrun_watch [of env exec]) simp_all
  from la show "fileCycle env l c d =
          Inr (l\<lparr>initialLoad := (initialLoad l)\<lparr>closed := True\<rparr>, applet := app\<rparr>,
               Update0\<lparr>Err := Some (Wrap ''error running script: ''
                                       (cause (runContext l)))\<rparr>)"
    by (rule fileCycle_error)
  assume "Marshal env c = Inr bs \<and>
             (if configOutFile l \<noteq> [] then WriteFile env (configOutFile l) bs dpre
              else Inr dpre) = Inr d"
  with la show "requestCycle env l c dpre =
               Inr (l\<lparr>initialLoad := (initialLoad l)\<lparr>closed := True\<rparr>, applet := app\<rparr>, d,
                    Update0\<lparr>Err := Some (Wrap ''error running script: ''
                                            (cause (runContext l)))\<rparr>)"
    by (intro requestCycle_error [of env c bs]) simp_all
qed

text \<open>
  With a timeout of 9223372036855 ms the deadline lies in the past, and a script that
  needs one millisecond is reported to have timed out.
\<close>

theorem deadline_overflow_counterexample:
  "sint (timeout (demo_loader False 9223372036855 [] ''fast'')) = 9223372036855
   \<and> sint (deadline (runContext (demo_loader False 9223372036855 [] ''fast'')))
       = - 9223372036854551616
   \<and> cause (runContext (demo_loader False 9223372036855 [] ''fast''))
       = New ''timeout after 9223372036855ms''
   \<and> fst (demo_exec ''fast'' []) = 1000000
   \<and> renderApplet demo (demo_loader False 9223372036855 [] ''fast'') []
       = Inl (Wrap ''error running script: '' (New ''timeout after 9223372036855ms''))"
  by (simp add: cycle_defs demo_defs text_defs)

section \<open>On-demand requests: what a caller gets back\<close>

lemma fileCycle_frame:
  assumes "fileCycle env l c d = Inr (l', up)"
  shows "resultsChan l' = resultsChan l \<and> updatesChan l' = updatesChan l"
proof -
  from assms obtain r where "loadApplet env l d c = Inr (l', r)"
    by (auto simp add: fileCycle_def Let_def split: sum.splits prod.splits)
  from loadApplet_frame [OF this] show ?thesis by simp
qed

lemma file_change_never_replies:
  assumes "step env be SelectFile s = Some s'"
  shows "resultsChan (ldr s') = resultsChan (ldr s)
       \<and> updatesChan (ldr s') = updatesChan (ldr s)
       \<and> ((\<exists>up. pc s' = SendUpdates up False) \<or> (\<exists>f. pc s' = Panicked f))"
proof -
  from assms have sf: "selectFile env s = Some s'"
    by (auto simp add: step_def split: loop_pc.splits if_splits)
  then obtain ch where c:
    "(case fileCycle env ((ldr s)\<lparr>fileChanges := ch\<rparr>) (config s) (files s) of
        Inl f \<Rightarrow> Some (s\<lparr>ldr := (ldr s)\<lparr>fileChanges := ch\<rparr>, pc := Panicked f\<rparr>)
      | Inr (l', up) \<Rightarrow> Some (s\<lparr>ldr := l', pc := SendUpdates up False\<rparr>)) = Some s'"
    by (auto simp add: selectFile_def Let_def split: option.splits if_splits)
  show ?thesis
  proof (cases "fileCycle env ((ldr s)\<lparr>fileChanges := ch\<rparr>) (config s) (files s)")
    case (Inl f)
    with c show ?thesis by auto
  next
    case (Inr r)
    obtain l' up where r: "r = (l', up)" by (cases r)
    from Inr r fileCycle_frame
    have "resultsChan l' = resultsChan (ldr s) \<and> updatesChan l' = updatesChan (ldr s)"
      by fastforce
    with c Inr r show ?thesis by auto
  qed
qed

lemma file_update_sent_to_updatesChan_only:
  assumes "pc s = SendUpdates up False" and "step env be LoopSend s = Some s'"
  shows "resultsChan (ldr s') = resultsChan (ldr s) \<and> pc s' = AtSelect
       \<and> buf (updatesChan (ldr s')) = buf (updatesChan (ldr s)) @ [up]"
  using assms
  by (auto simp add: step_def loopSend_def send_def split: option.splits if_splits)

lemma requestCycle_writes_retained_config:
  assumes "requestCycle env l c d = Inr (l', d', up)" and "configOutFile l \<noteq> []"
  shows "\<exists>bs r. Marshal env c = Inr bs \<and> d' = d(configOutFile l \<mapsto> bs)
           \<and> loadApplet env l d' c = Inr (l', r)"
  using assms
  by (auto simp add: requestCycle_def WriteFile_def Let_def
      split: sum.splits option.splits prod.splits)

text \<open>
  C1 states that the outcome \<^verbatim>\<open>LoadApplet\<close> returns is the outcome of the cycle its own
  request triggered: never that of a file-change cycle, and never that of another caller's
  cycle. The first half holds (\<open>file_change_never_replies\<close> and
  \<open>file_update_sent_to_updatesChan_only\<close> above: the file-change case sends on
  \<^verbatim>\<open>updatesChan\<close> only). The second half fails, as the comment on \<^verbatim>\<open>LoadApplet\<close> says it
  can: all callers receive from the one \<^verbatim>\<open>resultsChan\<close>. Here two callers submit the
  configurations \<^verbatim>\<open>{"x":"A"}\<close> and \<^verbatim>\<open>{"x":"B"}\<close>; the second caller receives first. The
  first caller returns the image of \<^verbatim>\<open>{"x":"B"}\<close>, the second the image of
  \<^verbatim>\<open>{"x":"A"}\<close>.
\<close>

theorem LoadApplet_results_crossed:
  "map_option callers
     (run demo demo_benv
        [Call 0, Call 0, SelectConfig, SelectRequest, LoopSend, LoopSend,
         Call 1, Call 1, Call 1, SelectConfig, SelectRequest, LoopSend, LoopSend, Call 0]
        (demo_server False [] ''fast'' [Calling [(''x'', ''A'')], Calling [(''x'', ''B'')]]))
   = Some [Returned ''UklGRng9Qg=='' None, Returned ''UklGRng9QQ=='' None]
   \<and> renderApplet demo (demo_loader False 30000 [] ''fast'') [(''x'', ''A'')] = Inr ''UklGRng9QQ==''
   \<and> renderApplet demo (demo_loader False 30000 [] ''fast'') [(''x'', ''B'')] = Inr ''UklGRng9Qg==''"
  by (simp add: server_defs cycle_defs demo_defs text_defs)

text \<open>
  C8 states that, with a debug path configured, every on-demand cycle writes the JSON of
  the retained configuration to that path before the render, so that after
  \<^verbatim>\<open>LoadApplet\<close> with \<^verbatim>\<open>{"x":"1"}\<close> returns the file contains exactly \<^verbatim>\<open>{"x":"1"}\<close>. The
  cycle does write the retained configuration first
  (\<open>requestCycle_writes_retained_config\<close> above), but the retained configuration need not
  be the caller's: \<^verbatim>\<open>LoadApplet\<close> sends the configuration and the request on two channels,
  and the select of \<^verbatim>\<open>Run\<close> may take the request first. In the first run below it does:
  the call returns the image of the empty configuration, the file holds \<^verbatim>\<open>{}\<close> and the
  caller's configuration is still waiting in \<^verbatim>\<open>configChanges\<close>. In the second run the
  select takes the configuration first and the file holds \<^verbatim>\<open>{"x":"1"}\<close>.
\<close>

theorem requestSync_debug_file_stale:
  \<open>map_option (\<lambda>s. (callers s, files s ''/tmp/config.json'', buf (configChanges (ldr s))))
     (run demo demo_benv [Call 0, Call 0, SelectRequest, LoopSend, LoopSend, Call 0]
        (demo_server False ''/tmp/config.json'' ''fast'' [Calling [(''x'', ''1'')]]))
   = Some ([Returned ''UklGRng9'' None], Some ''{}'', [[(''x'', ''1'')]])
   \<and> map_option (\<lambda>s. (callers s, files s ''/tmp/config.json'', buf (configChanges (ldr s))))
     (run demo demo_benv [Call 0, Call 0, SelectConfig, SelectRequest, LoopSend, LoopSend, Call 0]
        (demo_server False ''/tmp/config.json'' ''fast'' [Calling [(''x'', ''1'')]]))
   = Some ([Returned ''UklGRng9MQ=='' None], Some ''{"x":"1"}'', [])
   \<and> json_Marshal [(''x'', ''1'')] = Inr ''{"x":"1"}''\<close>
  by (simp add: server_defs cycle_defs demo_defs text_defs)

section \<open>The theorems at concrete inputs\<close>

lemma demo_NewLoader_watch:
  "NewLoader demo Map.empty () True (make_chan 100) (make_chan 100) 15000 30000 False []
     = Inr (Inr (demo_loader True 30000 [] []))"
  by (simp add: NewLoader_def demo_defs cycle_defs)

lemma demo_NewLoader_nowatch:
  "NewLoader demo (Map.empty(''main.star'' \<mapsto> ''fast'')) () False (make_chan 100)
     (make_chan 100) 15000 30000 False out
     = Inr (Inr (demo_loader False 30000 out ''fast''))"
  by (simp add: NewLoader_def demo_defs cycle_defs)

lemma demo_browser_eq:
  "demo_browser w =
     \<lparr>addr = ''127.0.0.1:8080'', path = ''/pixlet/'', title = ''main.star'', watch = w,
      fo = [], serveGif = False\<rparr>"
  by (simp add: demo_defs)

lemma demo_run_file_change:
  "run demo demo_benv [Notify, SelectFile]
     (start (demo_loader False 30000 [] ''blank'') Map.empty [] (demo_browser False))
   = Some \<lparr>ldr = demo_loader False 30000 [] ''blank'', config = [],
           pc = SendUpdates \<lparr>Image = [], ImageType = ''webp'',
                  Schema = SchemaJSON demo ''blank'', Err = None\<rparr> False,
           files = Map.empty, callers = [], browser = demo_browser False\<rparr>"
  by (simp add: server_defs cycle_defs demo_defs text_defs)

theorem ready_gate_one_shot_witness:
  "\<not> closed (initialLoad (demo_loader True 30000 [] []))
   \<and> markInitialLoadComplete (demo_loader True 30000 [] [])
       = Inr ((demo_loader True 30000 [] [])\<lparr>initialLoad := (make_chan 0)\<lparr>closed := True\<rparr>\<rparr>)
   \<and> markInitialLoadComplete_times (Suc 2) (demo_loader True 30000 [] [])
       = Inr ((demo_loader True 30000 [] [])\<lparr>initialLoad := (make_chan 0)\<lparr>closed := True\<rparr>\<rparr>)
   \<and> NewLoader demo Map.empty () True (make_chan 100) (make_chan 100) 15000 30000 False []
       = Inr (Inr (demo_loader True 30000 [] []))
   \<and> (\<exists>l' r. loadApplet demo (demo_loader True 30000 [] []) Map.empty [] = Inr (l', r)
         \<and> closed (initialLoad l'))
   \<and> closed (initialLoad (ldr (start (demo_loader False 30000 [] ''blank'') Map.empty []
                                  (demo_browser False))))
   \<and> run demo demo_benv [Notify, SelectFile]
        (start (demo_loader False 30000 [] ''blank'') Map.empty [] (demo_browser False))
      = Some \<lparr>ldr = demo_loader False 30000 [] ''blank'', config = [],
           pc = SendUpdates \<lparr>Image = [], ImageType = ''webp'',
                  Schema = SchemaJSON demo ''blank'', Err = None\<rparr> False,
           files = Map.empty, callers = [], browser = demo_browser False\<rparr>
   \<and> closed (initialLoad (demo_loader False 30000 [] ''blank''))"
proof -
  let ?l = "demo_loader True 30000 [] []"
  note t = ready_gate_one_shot [of ?l 2 demo Map.empty "()" True
          "make_chan 100" "make_chan 100" 15000 30000 False "[]" ?l
          "[]" demo_benv "[Notify, SelectFile]"
          "start (demo_loader False 30000 [] ''blank'') Map.empty [] (demo_browser False)"
          "\<lparr>ldr = demo_loader False 30000 [] ''blank'', config = [],
           pc = SendUpdates \<lparr>Image = [], ImageType = ''webp'',
                  Schema = SchemaJSON demo ''blank'', Err = None\<rparr> False,
           files = Map.empty, callers = [], browser = demo_browser False\<rparr>"]
  have g: "initialLoad ?l = make_chan 0" and w: "watch ?l"
    by (simp_all add: demo_loader_def make_chan_def)
  have 1: "\<not> closed (initialLoad ?l)"
    by (simp add: g make_chan_def)
  from t have 2: "markInitialLoadComplete ?l
       = Inr (?l\<lparr>initialLoad := (make_chan 0)\<lparr>closed := True\<rparr>\<rparr>)"
    by (simp only: g) 
  from t have "markInitialLoadComplete_times (Suc 2) ?l = markInitialLoadComplete ?l"
    by (simp only:)
  with 2 have 3: "markInitialLoadComplete_times (Suc 2) ?l
       = Inr (?l\<lparr>initialLoad := (make_chan 0)\<lparr>closed := True\<rparr>\<rparr>)"
    by (simp only:)
  from t w have 5: "\<exists>l' r. loadApplet demo ?l Map.empty [] = Inr (l', r)
         \<and> closed (initialLoad l')"
    by (simp only: simp_thms)
  have 7: "closed (initialLoad (ldr (start (demo_loader False 30000 [] ''blank'') Map.empty []
                                  (demo_browser False))))"
    by (simp add: start_def demo_loader_def make_chan_def)
  from t 7 demo_run_file_change
  have 6: "closed (initialLoad (demo_loader False 30000 [] ''blank''))"
    by simp
  show ?thesis
    using 1 2 3 demo_NewLoader_watch 5 6 7 demo_run_file_change by (simp only: simp_thms)
qed

theorem debug_write_failure_panics_witness:
  "Marshal (demo\<lparr>Marshal := (\<lambda>c. Inl (New ''json: unsupported value''))\<rparr>) [] =
      Inl (New ''json: unsupported value'')
   \<and> requestCycle (demo\<lparr>Marshal := (\<lambda>c. Inl (New ''json: unsupported value''))\<rparr>)
        (demo_loader False 30000 [] ''fast'') [] Map.empty
      = Inl (PanicError (New ''json: unsupported value''))
   \<and> Marshal demo [] = Inr ''{}''
   \<and> WriteFileErr demo ''/proc/config.json'' = Some (New ''open /proc/config.json: permission denied'')
   \<and> requestCycle demo (demo_loader False 30000 ''/proc/config.json'' ''fast'') [] Map.empty
      = Inl (PanicError (New ''open /proc/config.json: permission denied''))
   \<and> WriteFileErr demo ''/tmp/config.json'' = None
   \<and> (\<exists>l' d' up. requestCycle demo (demo_loader False 30000 ''/tmp/config.json'' ''fast'') []
                     Map.empty = Inr (l', d', up))
   \<and> (\<exists>s'. step demo demo_benv SelectRequest
              ((start (demo_loader False 30000 ''/proc/config.json'' ''fast'') Map.empty []
                  (demo_browser False))
               \<lparr>ldr := (demo_loader False 30000 ''/proc/config.json'' ''fast'')
                         \<lparr>requestedChanges := (make_chan 100)\<lparr>buf := [True]\<rparr>\<rparr>\<rparr>) = Some s'
            \<and> pc s' = Panicked (PanicError (New ''open /proc/config.json: permission denied''))
            \<and> step demo demo_benv SelectConfig s' = None)"
  using debug_write_failure_panics
          [of "demo\<lparr>Marshal := (\<lambda>c. Inl (New ''json: unsupported value''))\<rparr>" "[]"
              "New ''json: unsupported value''" "demo_loader False 30000 [] ''fast''" Map.empty
              "[]" "start (demo_loader False 30000 [] ''fast'') Map.empty [] (demo_browser False)"
              True "make_chan 100" demo_benv SelectConfig]
        debug_write_failure_panics
          [of demo "[]" "New ''open /proc/config.json: permission denied''"
              "demo_loader False 30000 ''/proc/config.json'' ''fast''" Map.empty "''{}''"
              "(start (demo_loader False 30000 ''/proc/config.json'' ''fast'') Map.empty []
                  (demo_browser False))
               \<lparr>ldr := (demo_loader False 30000 ''/proc/config.json'' ''fast'')
                         \<lparr>requestedChanges := (make_chan 100)\<lparr>buf := [True]\<rparr>\<rparr>\<rparr>"
              True "make_chan 100" demo_benv SelectConfig]
        debug_write_failure_panics
          [of demo "[]" "New ''x''"
              "demo_loader False 30000 ''/tmp/config.json'' ''fast''" Map.empty "''{}''"
              "start (demo_loader False 30000 [] ''fast'') Map.empty [] (demo_browser False)"
              True "make_chan 100" demo_benv SelectConfig]
  by (simp add: demo_defs text_defs start_def recv_def)

theorem updateWatcher_events_in_order_witness:
  "fo (updateWatcher_recv demo_benv ((demo_browser True)\<lparr>fo := [(7, [])]\<rparr>)
         \<lparr>Image = [], ImageType = [], Schema = [], Err = Some (New ''boom'')\<rparr>)
   = [(7, [\<lparr>Type = EventTypeImage, Message = [], WebsocketEvent.ImageType = ''webp''\<rparr>,
           \<lparr>Type = EventTypeErr, Message = ''boom'', WebsocketEvent.ImageType = []\<rparr>])]
   \<and> fo (updateWatcher_recv demo_benv ((demo_browser True)\<lparr>fo := [(7, [])]\<rparr>)
         \<lparr>Image = ''eD0x'', ImageType = ''webp'', Schema = ''{}'', Err = None\<rparr>)
   = [(7, [\<lparr>Type = EventTypeImage, Message = ''eD0x'', WebsocketEvent.ImageType = ''webp''\<rparr>,
           \<lparr>Type = EventTypeSchema, Message = ''{}'', WebsocketEvent.ImageType = []\<rparr>])]"
  using updateWatcher_events_in_order [of demo_benv "(demo_browser True)\<lparr>fo := [(7, [])]\<rparr>"
          "\<lparr>Image = [], ImageType = [], Schema = [], Err = Some (New ''boom'')\<rparr>"]
        updateWatcher_events_in_order [of demo_benv "(demo_browser True)\<lparr>fo := [(7, [])]\<rparr>"
          "\<lparr>Image = ''eD0x'', ImageType = ''webp'', Schema = ''{}'', Err = None\<rparr>"]
  by (simp add: demo_defs)

theorem websocket_admitted_only_in_watch_mode_witness:
  "\<not> Browser.watch (demo_browser False)
   \<and> websocketHandler demo_benv (demo_browser False) 5 = (NotAdmitted, demo_browser False)
   \<and> websocketHandler_all demo_benv (demo_browser False) [1, 2, 3]
       = ([NotAdmitted, NotAdmitted, NotAdmitted], demo_browser False)
   \<and> fo (snd (websocketHandler_all demo_benv (demo_browser False) [1, 2, 3])) = hub_NewFanout
   \<and> Browser.watch (demo_browser True)
   \<and> Upgrade demo_benv 5 = Inr 5
   \<and> websocketHandler demo_benv (demo_browser True) 5
       = (Registered 5, (demo_browser True)\<lparr>fo := [(5, [])]\<rparr>)"
  using websocket_admitted_only_in_watch_mode
          [where b = "demo_browser False" and be = demo_benv and r = 5 and rs = "[1, 2, 3]"
             and conn = 5 and a = "''127.0.0.1:8080''" and p = "''pixlet''"
             and t = "''main.star''" and g = False]
        websocket_admitted_only_in_watch_mode
          [where b = "demo_browser True" and be = demo_benv and r = 5 and rs = "[]"
             and conn = 5]
  by (simp add: demo_defs)

theorem failed_reload_keeps_applet_witness:
  "watch ((demo_loader True 30000 [] ''fast'')\<lparr>initialLoad := make_chan 0\<rparr>)
   \<and> loadScript demo ''app-id'' () (Map.empty(''main.star'' \<mapsto> [])) = Inl (New ''no main() function'')
   \<and> fileCycle demo ((demo_loader True 30000 [] ''fast'')\<lparr>initialLoad := make_chan 0\<rparr>) []
        (Map.empty(''main.star'' \<mapsto> []))
      = Inr ((demo_loader True 30000 [] ''fast'')\<lparr>initialLoad := (make_chan 0)\<lparr>closed := True\<rparr>\<rparr>,
             \<lparr>Image = [], ImageType = [], Schema = [], Err = Some (New ''no main() function'')\<rparr>)
   \<and> requestCycle demo ((demo_loader True 30000 [] ''fast'')\<lparr>initialLoad := make_chan 0\<rparr>) []
        (Map.empty(''main.star'' \<mapsto> []))
      = Inr ((demo_loader True 30000 [] ''fast'')\<lparr>initialLoad := (make_chan 0)\<lparr>closed := True\<rparr>\<rparr>,
             Map.empty(''main.star'' \<mapsto> []),
             \<lparr>Image = [], ImageType = [], Schema = [], Err = Some (New ''no main() function'')\<rparr>)
   \<and> applet ((demo_loader True 30000 [] ''fast'')\<lparr>initialLoad := (make_chan 0)\<lparr>closed := True\<rparr>\<rparr>)
      = ''fast''"
  using failed_reload_keeps_applet [of "(demo_loader True 30000 [] ''fast'')\<lparr>initialLoad := make_chan 0\<rparr>"
          demo "Map.empty(''main.star'' \<mapsto> [])" "New ''no main() function''" "[]" "''{}''"
          "Map.empty(''main.star'' \<mapsto> [])"]
  by (simp add: demo_defs text_defs Update0_def)

theorem execution_deadline_and_timeout_witness:
  "- (2 ^ 63) \<le> sint (timeout (demo_loader False 50 [] ''slow'')) * 1000000
   \<and> sint (timeout (demo_loader False 50 [] ''slow'')) * 1000000 < 2 ^ 63
   \<and> sint (deadline (runContext (demo_loader False 50 [] ''slow''))) = 50000000
   \<and> fst (demo_exec ''slow'' []) = 500000000
   \<and> renderApplet demo (demo_loader False 50 [] ''slow'') []
       = Inl (Wrap ''error running script: '' (New ''timeout after 50ms''))
   \<and> requestCycle demo (demo_loader False 50 [] ''slow'') [] Map.empty
       = Inr (demo_loader False 50 [] ''slow'', Map.empty,
              \<lparr>Image = [], ImageType = [], Schema = [],
               Err = Some (Wrap ''error running script: '' (New ''timeout after 50ms''))\<rparr>)
   \<and> loadScript demo ''app-id'' () (Map.empty(''main.star'' \<mapsto> ''slow'')) = Inr ''slow''
   \<and> requestCycle demo (demo_loader True 50 [] []) [] (Map.empty(''main.star'' \<mapsto> ''slow''))
       = Inr ((demo_loader True 50 [] [])
                \<lparr>initialLoad := (make_chan 0)\<lparr>closed := True\<rparr>, applet := ''slow''\<rparr>,
              Map.empty(''main.star'' \<mapsto> ''slow''),
              \<lparr>Image = [], ImageType = [], Schema = [],
               Err = Some (Wrap ''error running script: '' (New ''timeout after 50ms''))\<rparr>)
   \<and> Error (Wrap ''error running script: '' (New ''timeout after 50ms''))
       = ''error running script: timeout after 50ms''
   \<and> \<not> sint (timeout (demo_loader False 9223372036855 [] ''fast'')) * 1000000 < 2 ^ 63
   \<and> sint (deadline (runContext (demo_loader False 9223372036855 [] ''fast'')))
       \<noteq> sint (timeout (demo_loader False 9223372036855 [] ''fast'')) * 1000000"
proof -
  let ?l = "demo_loader False 50 [] ''slow''"
  let ?lw = "demo_loader True 50 [] []"
  let ?lb = "demo_loader False 9223372036855 [] ''fast''"
  let ?d = "Map.empty(''main.star'' \<mapsto> ''slow'')"
  have t: "sint (timeout ?l) = 50" and w: "\<not> watch ?l" and a: "applet ?l = ''slow''"
    and o: "configOutFile ?l = []"
    by (simp_all add: demo_loader_def)
  have tw: "sint (timeout ?lw) = 50" and ww: "watch ?lw" and ow: "configOutFile ?lw = []"
    and gw: "initialLoad ?lw = make_chan 0"
    by (simp_all add: demo_loader_def make_chan_def)
  have tb: "sint (timeout ?lb) = 9223372036855"
    by (simp add: demo_loader_def)
  have r: "RunWithConfig demo = RunWithConfig_spec demo_exec" and m: "Marshal demo [] = Inr ''{}''"
    and ls: "loadScript demo ''app-id'' () ?d = Inr ''slow''" and f: "fs ?lw = ()"
    by (simp_all add: demo_def text_defs)
  have e: "fst (demo_exec ''slow'' []) = 500000000"
    by (simp add: demo_exec_def)
  have c: "cause (runContext ?l) = New ''timeout after 50ms''"
    and cw: "cause (runContext ?lw) = New ''timeout after 50ms''"
    by (simp_all add: runContext_cause t tw text_defs)
  note th = execution_deadline_and_timeout [where l = ?l and env = demo and exec = demo_exec
      and c = "[]" and bs = "''{}''" and d = Map.empty and dpre = Map.empty]
  note thw = execution_deadline_and_timeout [where l = ?lw and env = demo and exec = demo_exec
      and c = "[]" and bs = "''{}''" and d = ?d and dpre = ?d and app = "''slow''"]
  note thb = execution_deadline_and_timeout [where l = ?lb, THEN conjunct1]
  from th t have 1: "sint (deadline (runContext ?l)) = 50000000"
    by simp
  from thw tw have w1: "sint (deadline (runContext ?lw)) = 50000000"
    by simp
  from th 1 r e a have 2: "renderApplet demo ?l []
       = Inl (Wrap ''error running script: '' (New ''timeout after 50ms''))"
    by (simp add: c)
  from th 1 r e a w m o have 3: "requestCycle demo ?l [] Map.empty
       = Inr (?l, Map.empty,
              Update0\<lparr>Err := Some (Wrap ''error running script: '' (New ''timeout after 50ms''))\<rparr>)"
    by (simp add: c)
  from thw w1 r e ww ls f m ow have 4: "requestCycle demo ?lw [] ?d
       = Inr (?lw\<lparr>initialLoad := (make_chan 0)\<lparr>closed := True\<rparr>, applet := ''slow''\<rparr>, ?d,
              Update0\<lparr>Err := Some (Wrap ''error running script: '' (New ''timeout after 50ms''))\<rparr>)"
    by (simp add: cw gw)
  from thb tb have 5: "sint (deadline (runContext ?lb)) \<noteq> sint (timeout ?lb) * 1000000"
    by simp
  show ?thesis
    using 1 2 3 4 5 e t tb ls by (simp add: Update0_def)
qed

theorem cycle_outcome_exclusive_witness:
  "requestCycle demo (demo_loader False 30000 [] ''fast'') [(''x'', ''1'')] Map.empty
      = Inr (demo_loader False 30000 [] ''fast'', Map.empty,
             \<lparr>Image = ''UklGRng9MQ=='', ImageType = ''webp'', Schema = [], Err = None\<rparr>)
   \<and> renderBytes demo (demo_loader False 30000 [] ''fast'') [(''x'', ''1'')] = Inr ''RIFFx=1''
   \<and> EncodeToString ''RIFFx=1'' = ''UklGRng9MQ==''
   \<and> fileCycle demo (demo_loader False 30000 [] ''blank'') [] Map.empty
      = Inr (demo_loader False 30000 [] ''blank'',
             \<lparr>Image = [], ImageType = ''webp'', Schema = SchemaJSON demo ''blank'', Err = None\<rparr>)
   \<and> \<not> watch (demo_loader False 30000 [] ''blank'')
   \<and> renderBytes demo (demo_loader False 30000 [] ''blank'') [] = Inr []
   \<and> fileCycle demo (demo_loader False 30000 [] ''broken'') [(''x'', ''1'')] Map.empty
      = Inr (demo_loader False 30000 [] ''broken'',
             \<lparr>Image = [], ImageType = [], Schema = [],
              Err = Some (Wrap ''error running script: '' (New ''main() failed''))\<rparr>)
   \<and> renderBytes demo (demo_loader False 30000 [] ''broken'') [(''x'', ''1'')]
      = Inl (Wrap ''error running script: '' (New ''main() failed''))"
proof -
  let ?u1 = "\<lparr>Image = ''UklGRng9MQ=='', ImageType = ''webp'', Schema = [], Err = None\<rparr>"
  let ?u2 = "\<lparr>Image = [], ImageType = ''webp'', Schema = SchemaJSON demo ''blank'', Err = None\<rparr>"
  let ?u3 = "\<lparr>Image = [], ImageType = [], Schema = [],
              Err = Some (Wrap ''error running script: '' (New ''main() failed''))\<rparr>"
  have 1: "requestCycle demo (demo_loader False 30000 [] ''fast'') [(''x'', ''1'')] Map.empty
      = Inr (demo_loader False 30000 [] ''fast'', Map.empty, ?u1)"
    by (simp add: cycle_defs demo_defs text_defs)
  have 2: "fileCycle demo (demo_loader False 30000 [] ''blank'') [] Map.empty
      = Inr (demo_loader False 30000 [] ''blank'', ?u2)"
    by (simp add: cycle_defs demo_defs text_defs)
  have 3: "fileCycle demo (demo_loader False 30000 [] ''broken'') [(''x'', ''1'')] Map.empty
      = Inr (demo_loader False 30000 [] ''broken'', ?u3)"
    by (simp add: cycle_defs demo_defs text_defs)
  have w: "\<not> watch (demo_loader False 30000 [] ''blank'')"
    by (simp add: demo_loader_def)
  from cycle_outcome_exclusive [where env = demo and l = "demo_loader False 30000 [] ''fast''"
      and c = "[(''x'', ''1'')]" and d = Map.empty and l' = "demo_loader False 30000 [] ''fast''"
      and d' = Map.empty and up = ?u1] 1
  obtain bytes where b: "renderBytes demo (demo_loader False 30000 [] ''fast'') [(''x'', ''1'')]
      = Inr bytes" "Image ?u1 = EncodeToString bytes"
    by auto
  have 4: "renderBytes demo (demo_loader False 30000 [] ''fast'') [(''x'', ''1'')] = Inr ''RIFFx=1''"
    by (simp add: renderBytes_def cycle_defs demo_defs text_defs)
  with b have 5: "EncodeToString ''RIFFx=1'' = ''UklGRng9MQ==''"
    by simp
  from cycle_outcome_exclusive [where env = demo and l = "demo_loader False 30000 [] ''blank''"
      and c = "[]" and d = Map.empty and l' = "demo_loader False 30000 [] ''blank''"
      and up = ?u2] 2 w
  have 6: "renderBytes demo (demo_loader False 30000 [] ''blank'') [] = Inr []"
    by simp
  have 7: "renderBytes demo (demo_loader False 30000 [] ''broken'') [(''x'', ''1'')]
      = Inl (Wrap ''error running script: '' (New ''main() failed''))"
    by (simp add: renderBytes_def cycle_defs demo_defs text_defs)
  from 1 2 3 w 4 5 6 7 show ?thesis by (simp only: simp_thms)
qed

theorem config_update_replaces_config_only_witness:
  "step demo demo_benv SelectConfig
     ((demo_server False [] ''fast'' [SentRequest])
        \<lparr>ldr := (demo_loader False 30000 [] ''fast'')
                  \<lparr>configChanges := (make_chan 100)\<lparr>buf := [[(''x'', ''1'')]]\<rparr>,
                   requestedChanges := (make_chan 100)\<lparr>buf := [True]\<rparr>\<rparr>\<rparr>)
   = Some ((demo_server False [] ''fast'' [SentRequest])
        \<lparr>ldr := (demo_loader False 30000 [] ''fast'')
                  \<lparr>configChanges := make_chan 100,
                   requestedChanges := (make_chan 100)\<lparr>buf := [True]\<rparr>\<rparr>,
         config := [(''x'', ''1'')]\<rparr>)
   \<and> pc ((demo_server False [] ''fast'' [SentRequest])
        \<lparr>ldr := (demo_loader False 30000 [] ''fast'')
                  \<lparr>configChanges := make_chan 100,
                   requestedChanges := (make_chan 100)\<lparr>buf := [True]\<rparr>\<rparr>,
         config := [(''x'', ''1'')]\<rparr>) = AtSelect
   \<and> updatesChan (demo_loader False 30000 [] ''fast'') = make_chan 100
   \<and> resultsChan (demo_loader False 30000 [] ''fast'') = make_chan 100"
proof -
  let ?s = "(demo_server False [] ''fast'' [SentRequest])
        \<lparr>ldr := (demo_loader False 30000 [] ''fast'')
                  \<lparr>configChanges := (make_chan 100)\<lparr>buf := [[(''x'', ''1'')]]\<rparr>,
                   requestedChanges := (make_chan 100)\<lparr>buf := [True]\<rparr>\<rparr>\<rparr>"
  let ?s' = "(demo_server False [] ''fast'' [SentRequest])
        \<lparr>ldr := (demo_loader False 30000 [] ''fast'')
                  \<lparr>configChanges := make_chan 100,
                   requestedChanges := (make_chan 100)\<lparr>buf := [True]\<rparr>\<rparr>,
         config := [(''x'', ''1'')]\<rparr>"
  have st: "step demo demo_benv SelectConfig ?s = Some ?s'"
    by (simp add: server_defs demo_defs)
  from config_update_replaces_config_only [OF st]
  have "pc ?s' = AtSelect \<and> updatesChan (ldr ?s') = updatesChan (ldr ?s)
        \<and> resultsChan (ldr ?s') = resultsChan (ldr ?s)"
    by blast
  then have "pc ?s' = AtSelect \<and> updatesChan (demo_loader False 30000 [] ''fast'') = make_chan 100
        \<and> resultsChan (demo_loader False 30000 [] ''fast'') = make_chan 100"
    by (simp add: demo_loader_def)
  with st show ?thesis by (simp only: simp_thms)
qed

end
